theory Spec2Isabelle
  imports Main
begin

section \<open>Global licensing: REUSE.toml and .reuse/dep5\<close>

text \<open>
  A shallow embedding of \<^verbatim>\<open>src/reuse/global_licensing.py\<close>. A Python exception is a
  value of \<open>exc\<close> on the left of a sum, a returned value is on the right. Only the class
  of an exception is kept: its message and its \<^verbatim>\<open>__cause__\<close> are left out, and so is
  the call to the logger in \<^verbatim>\<open>_str_to_set_of_expr\<close>.

  Python names that start with an underscore lose it here (\<^verbatim>\<open>_str_to_set\<close> is
  \<open>str_to_set\<close>), and a method \<^verbatim>\<open>C.m\<close> is the constant \<open>C_m\<close>.
\<close>

subsection \<open>Exception classes\<close>

text \<open>
  The classes that the module raises, catches or documents, with the base classes
  Python and the libraries give them. \<open>GlobalLicensingParseError\<close> is the one class the
  module declares itself (line 26), directly under \<open>Exception\<close>. \<open>DebianError\<close> is
  \<^verbatim>\<open>debian.copyright.Error\<close>, \<open>ParseError\<close> is \<^verbatim>\<open>boolean.boolean.ParseError\<close> and
  \<open>ExpressionError\<close> is \<^verbatim>\<open>license_expression.ExpressionError\<close>.
\<close>

datatype exc =
    Exception
  | TypeError
  | ValueError
  | UnicodeError
  | UnicodeDecodeError
  | OSError
  | FileNotFoundError
  | AttributeError
  | RuntimeError
  | NotImplementedError
  | DebianError
  | NotMachineReadableError
  | MachineReadableFormatError
  | ExpressionError
  | ParseError
  | GlobalLicensingParseError

text \<open>The method resolution order of each class: the class itself, then its ancestors.\<close>

fun mro :: "exc \<Rightarrow> exc list" where
  "mro Exception = [Exception]"
| "mro TypeError = [TypeError, Exception]"
| "mro ValueError = [ValueError, Exception]"
| "mro UnicodeError = [UnicodeError, ValueError, Exception]"
| "mro UnicodeDecodeError = [UnicodeDecodeError, UnicodeError, ValueError, Exception]"
| "mro OSError = [OSError, Exception]"
| "mro FileNotFoundError = [FileNotFoundError, OSError, Exception]"
| "mro AttributeError = [AttributeError, Exception]"
| "mro RuntimeError = [RuntimeError, Exception]"
| "mro NotImplementedError = [NotImplementedError, RuntimeError, Exception]"
| "mro DebianError = [DebianError, Exception]"
| "mro NotMachineReadableError = [NotMachineReadableError, DebianError, Exception]"
| "mro MachineReadableFormatError =
     [MachineReadableFormatError, DebianError, ValueError, Exception]"
| "mro ExpressionError = [ExpressionError, Exception]"
| "mro ParseError = [ParseError, Exception]"
| "mro GlobalLicensingParseError = [GlobalLicensingParseError, Exception]"

text \<open>\<open>except c\<close> catches \<open>e\<close> exactly when \<open>e\<close> is an instance of \<open>c\<close>.\<close>

definition isinstance_exc :: "exc \<Rightarrow> exc \<Rightarrow> bool" where
  "isinstance_exc e c = (c \<in> set (mro e))"

subsection \<open>Python values\<close>

text \<open>
  The values a key-value record can hold: \<^verbatim>\<open>None\<close>, booleans, integers, strings,
  lists, sets and dictionaries with string keys, and the expression objects of the
  license-expression library, whose type \<open>'e\<close> is left open. A set is the list of its
  elements in iteration order. Python does not fix that order; the model iterates in
  the order of first insertion, and the general theorems below speak of the elements
  of a set only, not of their order. A dictionary is an association list read with \<open>map_of\<close>. Floating
  point numbers and dates are outside the model.
\<close>

datatype 'e pyval =
    PNone
  | PBool bool
  | PInt int
  | PStr string
  | PExpr 'e
  | PList "'e pyval list"
  | PSet "'e pyval list"
  | PDict "(string \<times> 'e pyval) list"

datatype pytype = T_str | T_int | T_list | T_set | T_Expression

text \<open>\<^verbatim>\<open>isinstance(value, type_)\<close>; \<^verbatim>\<open>bool\<close> is a subclass of \<^verbatim>\<open>int\<close>.\<close>

fun isinstance :: "'e pyval \<Rightarrow> pytype \<Rightarrow> bool" where
  "isinstance v T_str = (case v of PStr s \<Rightarrow> True | _ \<Rightarrow> False)"
| "isinstance v T_int = (case v of PInt i \<Rightarrow> True | PBool b \<Rightarrow> True | _ \<Rightarrow> False)"
| "isinstance v T_list = (case v of PList xs \<Rightarrow> True | _ \<Rightarrow> False)"
| "isinstance v T_set = (case v of PSet xs \<Rightarrow> True | _ \<Rightarrow> False)"
| "isinstance v T_Expression = (case v of PExpr x \<Rightarrow> True | _ \<Rightarrow> False)"

text \<open>Lists, sets and dictionaries cannot be hashed, so they cannot be set elements.\<close>

fun hashable :: "'e pyval \<Rightarrow> bool" where
  "hashable (PList xs) = False"
| "hashable (PSet xs) = False"
| "hashable (PDict kvs) = False"
| "hashable v = True"

text \<open>
  \<^verbatim>\<open>==\<close> on hashable values: structural, except that \<^verbatim>\<open>True == 1\<close> and
  \<^verbatim>\<open>False == 0\<close>.
\<close>

fun hash_key :: "'e pyval \<Rightarrow> 'e pyval" where
  "hash_key (PBool b) = PInt (if b then 1 else 0)"
| "hash_key v = v"

definition py_eq :: "'e pyval \<Rightarrow> 'e pyval \<Rightarrow> bool" where
  "py_eq a b = (hash_key a = hash_key b)"

text \<open>\<^verbatim>\<open>s.add(v)\<close>: an element equal to one already present is not added again.\<close>

definition set_add :: "'e pyval list \<Rightarrow> 'e pyval \<Rightarrow> 'e pyval list" where
  "set_add s v = (if list_ex (\<lambda>x. py_eq x v) s then s else s @ [v])"

fun set_add_all :: "'e pyval list \<Rightarrow> 'e pyval list \<Rightarrow> 'e pyval list" where
  "set_add_all s [] = s"
| "set_add_all s (v # vs) = set_add_all (set_add s v) vs"

text \<open>\<^verbatim>\<open>set(iterable)\<close> raises \<^verbatim>\<open>TypeError\<close> at an element that cannot be hashed.\<close>

definition py_set :: "'e pyval list \<Rightarrow> exc + 'e pyval list" where
  "py_set xs = (if list_all hashable xs then Inr (set_add_all [] xs) else Inl TypeError)"

text \<open>
  What iterating a value yields, \<open>None\<close> when the value has no \<^verbatim>\<open>__iter__\<close>: the
  characters of a string, the elements of a list or a set, the keys of a dictionary.
\<close>

fun iter_of :: "'e pyval \<Rightarrow> 'e pyval list option" where
  "iter_of (PStr s) = Some (map (\<lambda>c. PStr [c]) s)"
| "iter_of (PList xs) = Some xs"
| "iter_of (PSet xs) = Some xs"
| "iter_of (PDict kvs) = Some (map PStr (remdups (map fst kvs)))"
| "iter_of v = None"

text \<open>\<^verbatim>\<open>values.get(key)\<close> and \<^verbatim>\<open>values.get(key, default)\<close>.\<close>

definition dict_get_default ::
  "(string \<times> 'e pyval) list \<Rightarrow> string \<Rightarrow> 'e pyval \<Rightarrow> 'e pyval" where
  "dict_get_default values k d = (case map_of values k of None \<Rightarrow> d | Some v \<Rightarrow> v)"

definition dict_get :: "(string \<times> 'e pyval) list \<Rightarrow> string \<Rightarrow> 'e pyval" where
  "dict_get values k = dict_get_default values k PNone"

subsection \<open>ReuseInfo and SourceType\<close>

text \<open>
  Modelled from the spec: the class \<^verbatim>\<open>ReuseInfo\<close> and the enumeration \<^verbatim>\<open>SourceType\<close>
  are imported from the package (line 20) and their declarations are not in the
  module. The spec gives a ReuseInfo a set of license expressions, a set of copyright
  lines, the path it applies to, a tag for the mechanism that produced it (legacy
  table, modern annotation or in-file header) and the path of the declaration file.
  The module builds it with keyword arguments, and with no argument for the empty one;
  an empty ReuseInfo has empty sets and no path, tag or source path.
\<close>

datatype SourceType = DEP5 | REUSE_TOML | FILE_HEADER

record 'e ReuseInfo =
  spdx_expressions :: "'e pyval list"
  copyright_lines :: "'e pyval list"
  path :: "string option"
  source_type :: "SourceType option"
  source_path :: "string option"

definition ReuseInfo_empty :: "'e ReuseInfo" where
  "ReuseInfo_empty =
     \<lparr>spdx_expressions = [], copyright_lines = [], path = None,
      source_type = None, source_path = None\<rparr>"

subsection \<open>Validators and converters (lines 100 to 177)\<close>

text \<open>
  \<^verbatim>\<open>_validate_collection_of_type\<close>: the two \<^verbatim>\<open>raise TypeError\<close> of the source, the
  first for the collection and the second for the first item of the wrong type.
\<close>

definition validate_collection_of_type ::
  "'e pyval \<Rightarrow> pytype \<Rightarrow> pytype \<Rightarrow> exc + unit" where
  "validate_collection_of_type val iterable_type item_type =
     (if \<not> isinstance val iterable_type then Inl TypeError
      else case iter_of val of
             None \<Rightarrow> Inl TypeError
           | Some items \<Rightarrow>
               if list_all (\<lambda>item. isinstance item item_type) items then Inr ()
               else Inl TypeError)"

definition validate_set_of_str :: "'e pyval \<Rightarrow> exc + unit" where
  "validate_set_of_str val = validate_collection_of_type val T_set T_str"

definition validate_set_of_expr :: "'e pyval \<Rightarrow> exc + unit" where
  "validate_set_of_expr val = validate_collection_of_type val T_set T_Expression"

text \<open>The arguments of \<^verbatim>\<open>Literal["aggregate", "file", "toml"]\<close> (line 189).\<close>

definition precedence_args :: "'e pyval list" where
  "precedence_args = [PStr ''aggregate'', PStr ''file'', PStr ''toml'']"

definition validate_literal :: "'e pyval \<Rightarrow> exc + unit" where
  "validate_literal val =
     (if \<not> list_ex (\<lambda>a. py_eq a val) precedence_args then Inl ValueError else Inr ())"

text \<open>\<^verbatim>\<open>_str_to_set\<close>, the three branches in the order of the source.\<close>

definition str_to_set :: "'e pyval \<Rightarrow> exc + 'e pyval list" where
  "str_to_set val =
     (if isinstance val T_str then Inr [val]
      else case iter_of val of
             Some items \<Rightarrow> py_set items
           | None \<Rightarrow> Inr [val])"

text \<open>
  \<open>parse\<close> stands for \<^verbatim>\<open>_LICENSING.parse\<close>, which belongs to the license-expression
  library: it raises, or returns an expression object, or returns \<^verbatim>\<open>None\<close>.
\<close>

fun of_parsed :: "'e option \<Rightarrow> 'e pyval" where
  "of_parsed None = PNone"
| "of_parsed (Some x) = PExpr x"

text \<open>
  The loop of \<^verbatim>\<open>_str_to_set_of_expr\<close>: it stops at the first element on which
  \<open>parse\<close> raises and raises the same exception again.
\<close>

fun parse_into ::
  "('e pyval \<Rightarrow> exc + 'e option) \<Rightarrow> 'e pyval list \<Rightarrow> 'e pyval list \<Rightarrow> exc + 'e pyval list"
where
  "parse_into parse result [] = Inr result"
| "parse_into parse result (expression # rest) =
     (case parse expression of
        Inl e \<Rightarrow> Inl e
      | Inr x \<Rightarrow> parse_into parse (set_add result (of_parsed x)) rest)"

definition str_to_set_of_expr ::
  "('e pyval \<Rightarrow> exc + 'e option) \<Rightarrow> 'e pyval \<Rightarrow> exc + 'e pyval list" where
  "str_to_set_of_expr parse val =
     (case str_to_set val of
        Inl e \<Rightarrow> Inl e
      | Inr s \<Rightarrow> parse_into parse [] s)"

subsection \<open>AnnotationsItem (lines 180 to 209)\<close>

record 'e AnnotationsItem =
  paths :: "'e pyval list"
  precedence :: "'e pyval"
  copyright_lines :: "'e pyval list"
  spdx_expressions :: "'e pyval list"

text \<open>
  The \<^verbatim>\<open>__init__\<close> that attrs generates: the fields are assigned in the order of their
  declaration, each through its converter, and then the validators run in the same
  order on the converted values.
\<close>

definition AnnotationsItem_init ::
  "('e pyval \<Rightarrow> exc + 'e option) \<Rightarrow> 'e pyval \<Rightarrow> 'e pyval \<Rightarrow> 'e pyval \<Rightarrow> 'e pyval
     \<Rightarrow> exc + 'e AnnotationsItem" where
  "AnnotationsItem_init parse paths_arg precedence_arg copyright_arg spdx_arg =
     (case str_to_set paths_arg of Inl e \<Rightarrow> Inl e | Inr ps \<Rightarrow>
      case str_to_set copyright_arg of Inl e \<Rightarrow> Inl e | Inr cs \<Rightarrow>
      case str_to_set_of_expr parse spdx_arg of Inl e \<Rightarrow> Inl e | Inr xs \<Rightarrow>
      case validate_set_of_str (PSet ps) of Inl e \<Rightarrow> Inl e | Inr u1 \<Rightarrow>
      case validate_literal precedence_arg of Inl e \<Rightarrow> Inl e | Inr u2 \<Rightarrow>
      case validate_set_of_str (PSet cs) of Inl e \<Rightarrow> Inl e | Inr u3 \<Rightarrow>
      case validate_set_of_expr (PSet xs) of Inl e \<Rightarrow> Inl e | Inr u4 \<Rightarrow>
      Inr \<lparr>paths = ps, precedence = precedence_arg,
           copyright_lines = cs, spdx_expressions = xs\<rparr>)"

definition AnnotationsItem_from_dict ::
  "('e pyval \<Rightarrow> exc + 'e option) \<Rightarrow> (string \<times> 'e pyval) list \<Rightarrow> exc + 'e AnnotationsItem"
where
  "AnnotationsItem_from_dict parse values =
     AnnotationsItem_init parse
       (dict_get values ''path'')
       (dict_get values ''precedence'')
       (dict_get values ''SPDX-FileCopyrightText'')
       (dict_get values ''SPDX-License-Identifier'')"

subsection \<open>GlobalLicensing and ReuseDep5 (lines 32 to 97)\<close>

record GlobalLicensing =
  source :: string

text \<open>
  \<^verbatim>\<open>debian.copyright.Copyright\<close> is used through one method,
  \<^verbatim>\<open>find_files_paragraph\<close>, which gives the paragraph for a file name or \<^verbatim>\<open>None\<close>. Of a
  paragraph the module reads \<^verbatim>\<open>license.synopsis\<close> and \<^verbatim>\<open>copyright\<close>, both strings.
\<close>

record FilesParagraph =
  license_synopsis :: string
  copyright :: string

type_synonym Copyright = "string \<Rightarrow> FilesParagraph option"

record ReuseDep5 = GlobalLicensing +
  dep5_copyright :: Copyright

text \<open>
  \<^verbatim>\<open>ReuseDep5.from_file\<close>. The body of the \<^verbatim>\<open>try\<close> opens the file as UTF-8 text and
  hands the stream to \<^verbatim>\<open>Copyright\<close>, which decodes it as it reads; both belong to
  libraries and are parameters, as is \<open>Path_str\<close> for \<^verbatim>\<open>str(Path(path))\<close>. The three
  \<^verbatim>\<open>except\<close> clauses are tried in the order of the source; an exception that none of
  them catches leaves the function as it is.
\<close>

definition ReuseDep5_from_file ::
  "(string \<Rightarrow> string) \<Rightarrow> (string \<Rightarrow> exc + 's) \<Rightarrow> ('s \<Rightarrow> exc + Copyright) \<Rightarrow> string
     \<Rightarrow> exc + ReuseDep5" where
  "ReuseDep5_from_file Path_str open_utf8 Copyright_init p =
     (case (case open_utf8 p of Inl e \<Rightarrow> Inl e | Inr fp \<Rightarrow> Copyright_init fp) of
        Inr c \<Rightarrow> Inr \<lparr>source = Path_str p, dep5_copyright = c\<rparr>
      | Inl error \<Rightarrow>
          if isinstance_exc error UnicodeDecodeError then Inl error
          else if isinstance_exc error DebianError \<or> isinstance_exc error ValueError
          then Inl GlobalLicensingParseError
          else Inl error)"

text \<open>
  \<^verbatim>\<open>ReuseDep5.reuse_info_of\<close>. \<open>as_posix\<close> is \<^verbatim>\<open>PurePath(path).as_posix()\<close>, \<open>strip\<close> is
  \<^verbatim>\<open>str.strip\<close> and \<open>splitlines\<close> is \<^verbatim>\<open>str.splitlines\<close>. The set of expressions is
  built from the one-element list of the parsed synopsis.
\<close>

definition ReuseDep5_reuse_info_of ::
  "(string \<Rightarrow> string) \<Rightarrow> ('e pyval \<Rightarrow> exc + 'e option) \<Rightarrow> (string \<Rightarrow> string)
     \<Rightarrow> (string \<Rightarrow> string list) \<Rightarrow> ReuseDep5 \<Rightarrow> string \<Rightarrow> exc + 'e ReuseInfo" where
  "ReuseDep5_reuse_info_of as_posix parse strip splitlines self p =
     (let p' = as_posix p in
      case dep5_copyright self p' of
        None \<Rightarrow> Inr ReuseInfo_empty
      | Some result \<Rightarrow>
          (case parse (PStr (license_synopsis result)) of
             Inl e \<Rightarrow> Inl e
           | Inr x \<Rightarrow>
               (case py_set [of_parsed x] of
                  Inl e \<Rightarrow> Inl e
                | Inr xs \<Rightarrow>
                    (case py_set (map (\<lambda>l. PStr (strip l)) (splitlines (copyright result))) of
                       Inl e \<Rightarrow> Inl e
                     | Inr cs \<Rightarrow>
                         Inr \<lparr>ReuseInfo.spdx_expressions = xs,
                              ReuseInfo.copyright_lines = cs,
                              path = Some p',
                              source_type = Some DEP5,
                              source_path = Some ''.reuse/dep5''\<rparr>))))"

subsection \<open>ReuseTOML (lines 212 to 253)\<close>

record 'e ReuseTOML = GlobalLicensing +
  version :: "'e pyval"
  annotations :: "'e AnnotationsItem list"

text \<open>
  The \<^verbatim>\<open>__init__\<close> that attrs generates for \<^verbatim>\<open>ReuseTOML\<close>: no field has a converter, and
  the validators run in the order \<^verbatim>\<open>source\<close>, \<^verbatim>\<open>version\<close>, \<^verbatim>\<open>annotations\<close>. \<^verbatim>\<open>source\<close> is
  a string and \<^verbatim>\<open>annotations\<close> a list of \<^verbatim>\<open>AnnotationsItem\<close> by their types here, so
  only the validator of \<^verbatim>\<open>version\<close> can raise.
\<close>

definition ReuseTOML_init ::
  "string \<Rightarrow> 'e pyval \<Rightarrow> 'e AnnotationsItem list \<Rightarrow> exc + 'e ReuseTOML" where
  "ReuseTOML_init source_arg version_arg annotations_arg =
     (if \<not> isinstance version_arg T_int then Inl TypeError
      else Inr \<lparr>source = source_arg, version = version_arg,
                annotations = annotations_arg\<rparr>)"

text \<open>
  One step of the list comprehension of \<^verbatim>\<open>ReuseTOML.from_dict\<close>: an element that is
  not a dictionary has no \<^verbatim>\<open>get\<close>.
\<close>

definition AnnotationsItem_from_value ::
  "('e pyval \<Rightarrow> exc + 'e option) \<Rightarrow> 'e pyval \<Rightarrow> exc + 'e AnnotationsItem" where
  "AnnotationsItem_from_value parse annotation =
     (case annotation of
        PDict values \<Rightarrow> AnnotationsItem_from_dict parse values
      | _ \<Rightarrow> Inl AttributeError)"

fun from_dict_each ::
  "('e pyval \<Rightarrow> exc + 'e option) \<Rightarrow> 'e pyval list \<Rightarrow> exc + 'e AnnotationsItem list" where
  "from_dict_each parse [] = Inr []"
| "from_dict_each parse (annotation # rest) =
     (case AnnotationsItem_from_value parse annotation of
        Inl e \<Rightarrow> Inl e
      | Inr item \<Rightarrow>
          (case from_dict_each parse rest of
             Inl e \<Rightarrow> Inl e
           | Inr items \<Rightarrow> Inr (item # items)))"

definition ReuseTOML_from_dict ::
  "('e pyval \<Rightarrow> exc + 'e option) \<Rightarrow> (string \<times> 'e pyval) list \<Rightarrow> string \<Rightarrow> exc + 'e ReuseTOML"
where
  "ReuseTOML_from_dict parse values source_arg =
     (case iter_of (dict_get_default values ''annotations'' (PList [])) of
        None \<Rightarrow> Inl TypeError
      | Some annotation_dicts \<Rightarrow>
          (case from_dict_each parse annotation_dicts of
             Inl e \<Rightarrow> Inl e
           | Inr items \<Rightarrow> ReuseTOML_init source_arg (dict_get values ''version'') items))"

text \<open>\<open>loads\<close> is \<^verbatim>\<open>tomlkit.loads\<close>, which gives the document as a dictionary or raises.\<close>

definition ReuseTOML_from_toml ::
  "(string \<Rightarrow> exc + (string \<times> 'e pyval) list) \<Rightarrow> ('e pyval \<Rightarrow> exc + 'e option)
     \<Rightarrow> string \<Rightarrow> string \<Rightarrow> exc + 'e ReuseTOML" where
  "ReuseTOML_from_toml loads parse toml source_arg =
     (case loads toml of
        Inl e \<Rightarrow> Inl e
      | Inr tomldict \<Rightarrow> ReuseTOML_from_dict parse tomldict source_arg)"

text \<open>
  \<^verbatim>\<open>ReuseTOML.from_file\<close> has no \<^verbatim>\<open>try\<close>: whatever opening, reading (\<open>read\<close> is
  \<^verbatim>\<open>fp.read()\<close>, which decodes the whole file) or parsing raises leaves the function.
\<close>

definition ReuseTOML_from_file ::
  "(string \<Rightarrow> exc + 's) \<Rightarrow> ('s \<Rightarrow> exc + string)
     \<Rightarrow> (string \<Rightarrow> exc + (string \<times> 'e pyval) list) \<Rightarrow> ('e pyval \<Rightarrow> exc + 'e option)
     \<Rightarrow> string \<Rightarrow> exc + 'e ReuseTOML" where
  "ReuseTOML_from_file open_utf8 read loads parse p =
     (case open_utf8 p of
        Inl e \<Rightarrow> Inl e
      | Inr fp \<Rightarrow>
          (case read fp of
             Inl e \<Rightarrow> Inl e
           | Inr toml \<Rightarrow> ReuseTOML_from_toml loads parse toml p))"

definition ReuseTOML_reuse_info_of :: "'e ReuseTOML \<Rightarrow> string \<Rightarrow> exc + 'e ReuseInfo" where
  "ReuseTOML_reuse_info_of self p = Inl NotImplementedError"

subsection \<open>Notions used to state the properties\<close>

text \<open>No two elements of the list are equal in the sense of \<^verbatim>\<open>==\<close>.\<close>

fun py_distinct :: "'e pyval list \<Rightarrow> bool" where
  "py_distinct [] = True"
| "py_distinct (x # xs) = (\<not> list_ex (\<lambda>y. py_eq y x) xs \<and> py_distinct xs)"

text \<open>The keys that \<^verbatim>\<open>AnnotationsItem.from_dict\<close> looks up (lines 205 to 208).\<close>

definition annotation_keys :: "string list" where
  "annotation_keys =
     [''path'', ''precedence'', ''SPDX-FileCopyrightText'', ''SPDX-License-Identifier'']"

text \<open>
  The elements on which the loop of \<^verbatim>\<open>_str_to_set_of_expr\<close> (lines 167 to 176) calls
  \<open>parse\<close>, in the order of the calls: the \<^verbatim>\<open>raise\<close> ends the loop, so the element on
  which \<open>parse\<close> raises is the last one.
\<close>

fun parse_calls :: "('e pyval \<Rightarrow> exc + 'e option) \<Rightarrow> 'e pyval list \<Rightarrow> 'e pyval list" where
  "parse_calls parse [] = []"
| "parse_calls parse (expression # rest) =
     (case parse expression of
        Inl e \<Rightarrow> [expression]
      | Inr x \<Rightarrow> expression # parse_calls parse rest)"

text \<open>
  The calls of \<open>parse\<close> that \<^verbatim>\<open>AnnotationsItem.from_dict\<close> makes. The converter of
  \<^verbatim>\<open>spdx_expressions\<close> is the third that attrs runs, after those of \<^verbatim>\<open>paths\<close> and
  \<^verbatim>\<open>copyright_lines\<close>, and it coerces the field to a set before the loop; when one of
  these steps raises, the construction ends before any call.
\<close>

definition AnnotationsItem_parse_calls ::
  "('e pyval \<Rightarrow> exc + 'e option) \<Rightarrow> (string \<times> 'e pyval) list \<Rightarrow> 'e pyval list" where
  "AnnotationsItem_parse_calls parse values =
     (case str_to_set (dict_get values ''path'') of Inl e \<Rightarrow> [] | Inr ps \<Rightarrow>
      case str_to_set (dict_get values ''SPDX-FileCopyrightText'') of Inl e \<Rightarrow> [] | Inr cs \<Rightarrow>
      case str_to_set (dict_get values ''SPDX-License-Identifier'') of Inl e \<Rightarrow> [] | Inr s \<Rightarrow>
      parse_calls parse s)"

subsection \<open>An instance of the library parameters\<close>

text \<open>
  To run the model on concrete records the parameters need values. \<open>sample_parse\<close>
  follows \<^verbatim>\<open>Licensing.parse\<close> where the library fixes the outcome without looking at
  the grammar: \<^verbatim>\<open>None\<close> and a blank string give \<^verbatim>\<open>None\<close>, an expression object is
  returned as it is, any other value that is not a string raises
  \<^verbatim>\<open>ExpressionError\<close>. For a string it accepts license names joined by \<^verbatim>\<open>AND\<close>,
  \<^verbatim>\<open>OR\<close> or \<^verbatim>\<open>WITH\<close>, without parentheses, and the expression object is the list of
  tokens.
\<close>

definition operators :: "string list" where
  "operators = [''AND'', ''OR'', ''WITH'']"

fun words_from :: "string \<Rightarrow> string \<Rightarrow> string list" where
  "words_from w [] = (if w = [] then [] else [w])"
| "words_from w (c # cs) =
     (if c = CHR '' '' then (if w = [] then words_from [] cs else w # words_from [] cs)
      else words_from (w @ [c]) cs)"

fun alternates :: "string list \<Rightarrow> bool" where
  "alternates [] = False"
| "alternates [t] = (t \<notin> set operators)"
| "alternates (t # u # rest) = (t \<notin> set operators \<and> u \<in> set operators \<and> alternates rest)"

definition sample_parse :: "string list pyval \<Rightarrow> exc + string list option" where
  "sample_parse v =
     (case v of
        PNone \<Rightarrow> Inr None
      | PExpr x \<Rightarrow> Inr (Some x)
      | PStr s \<Rightarrow>
          (let ws = words_from [] s in
           if ws = [] then Inr None
           else if alternates ws then Inr (Some ws)
           else Inl ExpressionError)
      | _ \<Rightarrow> Inl ExpressionError)"

text \<open>
  \<open>sample_strip\<close> removes the spaces at both ends of a line and \<open>sample_splitlines\<close>
  cuts a text at its line feeds, as \<^verbatim>\<open>str.strip\<close> and \<^verbatim>\<open>str.splitlines\<close> do on such
  text.
\<close>

definition sample_strip :: "string \<Rightarrow> string" where
  "sample_strip l =
     rev (dropWhile (\<lambda>c. c = CHR '' '') (rev (dropWhile (\<lambda>c. c = CHR '' '') l)))"

fun lines_from :: "string \<Rightarrow> string \<Rightarrow> string list" where
  "lines_from l [] = (if l = [] then [] else [l])"
| "lines_from l (c # cs) =
     (if c = CHR 0x0A then l # lines_from [] cs else lines_from (l @ [c]) cs)"

definition sample_splitlines :: "string \<Rightarrow> string list" where
  "sample_splitlines s = lines_from [] s"

text \<open>
  A \<^verbatim>\<open>.reuse/dep5\<close> with two paragraphs, for \<^verbatim>\<open>README.md\<close> and for \<^verbatim>\<open>legacy.c\<close>,
  loaded from a path that is not relative to the project. The license of the second
  paragraph has a dangling operator.
\<close>

definition sample_dep5 :: ReuseDep5 where
  "sample_dep5 =
     \<lparr>source = ''/home/jane/project/.reuse/dep5'',
      dep5_copyright = (\<lambda>f.
        if f = ''README.md''
        then Some \<lparr>license_synopsis = ''CC0-1.0'',
                   copyright = ''2023 Jane Doe\<newline>  2024 John Roe ''\<rparr>
        else if f = ''legacy.c''
        then Some \<lparr>license_synopsis = ''GPL-2.0-only OR'',
                   copyright = ''1999 Old Corp''\<rparr>
        else None)\<rparr>"

text \<open>
  A directory of five files; a stream is named by the path of its file. The two files
  under \<^verbatim>\<open>latin1\<close> are not UTF-8, the one under \<^verbatim>\<open>broken\<close> is text that is not a
  machine-readable copyright file.
\<close>

definition sample_open :: "string \<Rightarrow> exc + string" where
  "sample_open p =
     (if p \<in> set [''.reuse/dep5'', ''latin1/.reuse/dep5'', ''broken/.reuse/dep5'',
                   ''REUSE.toml'', ''latin1/REUSE.toml'']
      then Inr p else Inl FileNotFoundError)"

definition sample_Copyright :: "string \<Rightarrow> exc + Copyright" where
  "sample_Copyright fp =
     (if fp = ''latin1/.reuse/dep5'' then Inl UnicodeDecodeError
      else if fp = ''broken/.reuse/dep5'' then Inl NotMachineReadableError
      else Inr (dep5_copyright sample_dep5))"

definition sample_read :: "string \<Rightarrow> exc + string" where
  "sample_read fp =
     (if fp = ''latin1/REUSE.toml'' then Inl UnicodeDecodeError else Inr ''version = 1'')"

definition sample_loads :: "string \<Rightarrow> exc + (string \<times> string list pyval) list" where
  "sample_loads toml =
     (if toml = ''version = 1'' then Inr [(''version'', PInt 1)] else Inl ValueError)"

section \<open>Properties\<close>

lemmas model_defs =
  AnnotationsItem_from_dict_def AnnotationsItem_init_def dict_get_def
  dict_get_default_def str_to_set_def py_set_def str_to_set_of_expr_def
  sample_parse_def operators_def set_add_def py_eq_def
  validate_set_of_str_def validate_set_of_expr_def validate_collection_of_type_def
  validate_literal_def precedence_args_def

subsection \<open>Sets\<close>

lemma py_eq_refl [simp]: "py_eq x x"
  by (simp add: py_eq_def)

lemma py_eq_sym: "py_eq x y = py_eq y x"
  by (auto simp: py_eq_def)

lemma py_eq_PStr [simp]: "py_eq (PStr s) v = (v = PStr s)"
  by (cases v) (auto simp: py_eq_def)

lemma py_eq_PStr2 [simp]: "py_eq v (PStr s) = (v = PStr s)"
  by (cases v) (auto simp: py_eq_def)

lemma set_set_add: "set (set_add s v) \<subseteq> insert v (set s)"
  by (auto simp: set_add_def)

lemma set_add_keeps: "set s \<subseteq> set (set_add s v)"
  by (auto simp: set_add_def)

lemma set_add_has: "list_ex (\<lambda>y. py_eq y v) (set_add s v)"
  by (auto simp: set_add_def list_ex_iff)

lemma py_distinct_append1:
  "py_distinct (s @ [v]) = (py_distinct s \<and> \<not> list_ex (\<lambda>y. py_eq y v) s)"
  by (induction s) (auto simp: list_ex_iff py_eq_sym)

lemma py_distinct_set_add: "py_distinct s \<Longrightarrow> py_distinct (set_add s v)"
  by (simp add: set_add_def py_distinct_append1)

lemma set_add_all_subset: "set (set_add_all s xs) \<subseteq> set s \<union> set xs"
proof (induction xs arbitrary: s)
  case Nil
  show ?case by simp
next
  case (Cons v vs)
  have "set (set_add_all (set_add s v) vs) \<subseteq> set (set_add s v) \<union> set vs"
    by (rule Cons.IH)
  with set_set_add [of s v] show ?case by auto
qed

lemma set_add_all_keeps: "set s \<subseteq> set (set_add_all s xs)"
proof (induction xs arbitrary: s)
  case Nil
  show ?case by simp
next
  case (Cons v vs)
  from Cons.IH [of "set_add s v"] set_add_keeps [of s v] show ?case by auto
qed

lemma set_add_all_covers:
  "x \<in> set s \<union> set xs \<Longrightarrow> list_ex (\<lambda>y. py_eq y x) (set_add_all s xs)"
proof (induction xs arbitrary: s)
  case Nil
  then have "x \<in> set s" by simp
  then show ?case by (auto simp: list_ex_iff intro!: bexI [where x = x])
next
  case (Cons v vs)
  show ?case
  proof (cases "x = v")
    case True
    have "list_ex (\<lambda>y. py_eq y v) (set_add s v)" by (rule set_add_has)
    then obtain y where "y \<in> set (set_add s v)" "py_eq y v" by (auto simp: list_ex_iff)
    with set_add_all_keeps [of "set_add s v" vs] True show ?thesis
      by (auto simp: list_ex_iff)
  next
    case False
    with Cons.prems set_add_keeps [of s v] have "x \<in> set (set_add s v) \<union> set vs" by auto
    from Cons.IH [OF this] show ?thesis by simp
  qed
qed

lemma py_distinct_set_add_all: "py_distinct s \<Longrightarrow> py_distinct (set_add_all s xs)"
  by (induction xs arbitrary: s) (auto simp: py_distinct_set_add)

subsection \<open>The set coercion\<close>

text \<open>
  C8, as amended. \<^verbatim>\<open>_str_to_set\<close> maps a string, and any value that cannot be
  iterated, to the one-element set that holds it. Any other iterable whose elements
  can all be hashed is consumed into a set of its elements: every element of the
  result comes from the iterable, no two of them are equal, and every element of the
  iterable is equal to one of them. The function is not total: on an iterable with an
  element that cannot be hashed it raises \<^verbatim>\<open>TypeError\<close>.
\<close>

theorem str_to_set_cases:
  "(isinstance v T_str \<or> iter_of v = None \<longrightarrow> str_to_set v = Inr [v]) \<and>
   (\<not> isinstance v T_str \<and> iter_of v = Some items \<and> list_all hashable items \<longrightarrow>
      (\<exists>s. str_to_set v = Inr s \<and> set s \<subseteq> set items \<and> py_distinct s \<and>
           (\<forall>x \<in> set items. list_ex (\<lambda>y. py_eq y x) s))) \<and>
   (\<not> isinstance v T_str \<and> iter_of v = Some items \<and> \<not> list_all hashable items \<longrightarrow>
      str_to_set v = Inl TypeError)"
proof (intro conjI impI)
  assume "isinstance v T_str \<or> iter_of v = None"
  then show "str_to_set v = Inr [v]" by (auto simp: str_to_set_def)
next
  assume a: "\<not> isinstance v T_str \<and> iter_of v = Some items \<and> list_all hashable items"
  then have eq: "str_to_set v = Inr (set_add_all [] items)"
    by (simp add: str_to_set_def py_set_def)
  have "set (set_add_all [] items) \<subseteq> set items"
    using set_add_all_subset [of "[]" items] by simp
  moreover have "py_distinct (set_add_all [] items)"
    by (rule py_distinct_set_add_all) simp
  moreover have "\<forall>x \<in> set items. list_ex (\<lambda>y. py_eq y x) (set_add_all [] items)"
    using set_add_all_covers [of _ "[]" items] by simp
  ultimately show "\<exists>s. str_to_set v = Inr s \<and> set s \<subseteq> set items \<and> py_distinct s \<and>
           (\<forall>x \<in> set items. list_ex (\<lambda>y. py_eq y x) s)"
    using eq by blast
next
  assume "\<not> isinstance v T_str \<and> iter_of v = Some items \<and> \<not> list_all hashable items"
  then show "str_to_set v = Inl TypeError" by (simp add: str_to_set_def py_set_def)
qed

text \<open>
  The three cases at a string, an integer, a list with a repeated string and a list
  that holds a list.
\<close>

theorem str_to_set_cases_witness:
  "str_to_set (PStr ''MIT'' :: unit pyval) = Inr [PStr ''MIT''] \<and>
   str_to_set (PInt 3 :: unit pyval) = Inr [PInt 3] \<and>
   (\<exists>s. str_to_set (PList [PStr ''a'', PStr ''b'', PStr ''a''] :: unit pyval) = Inr s \<and>
        set s \<subseteq> {PStr ''a'', PStr ''b''} \<and> py_distinct s \<and>
        list_ex (\<lambda>y. py_eq y (PStr ''a'')) s \<and> list_ex (\<lambda>y. py_eq y (PStr ''b'')) s) \<and>
   str_to_set (PList [PStr ''a'', PList []] :: unit pyval) = Inl TypeError"
  using str_to_set_cases [of "PStr ''MIT'' :: unit pyval" "[]"]
        str_to_set_cases [of "PInt 3 :: unit pyval" "[]"]
        str_to_set_cases [of "PList [PStr ''a'', PStr ''b'', PStr ''a''] :: unit pyval"
                             "[PStr ''a'', PStr ''b'', PStr ''a'']"]
        str_to_set_cases [of "PList [PStr ''a'', PList []] :: unit pyval" "[PStr ''a'', PList []]"]
  by auto

text \<open>
  C8 as stated fails: \<^verbatim>\<open>_str_to_set([[]])\<close> does not return a set, since
  \<^verbatim>\<open>set([[]])\<close> raises \<^verbatim>\<open>TypeError\<close> (a list cannot be hashed).
\<close>

theorem str_to_set_not_total: "str_to_set (PList [PList []] :: unit pyval) = Inl TypeError"
  by (simp add: str_to_set_def py_set_def)

subsection \<open>AnnotationsItem\<close>

lemma AnnotationsItem_init_Inr:
  "AnnotationsItem_init parse a b c d = Inr item \<longleftrightarrow>
     (\<exists>ps cs xs. str_to_set a = Inr ps \<and> str_to_set c = Inr cs \<and>
        str_to_set_of_expr parse d = Inr xs \<and>
        validate_set_of_str (PSet ps) = Inr () \<and> validate_literal b = Inr () \<and>
        validate_set_of_str (PSet cs) = Inr () \<and> validate_set_of_expr (PSet xs) = Inr () \<and>
        item = \<lparr>paths = ps, precedence = b, copyright_lines = cs, spdx_expressions = xs\<rparr>)"
  unfolding AnnotationsItem_init_def by (auto split: sum.splits)

lemma validate_set_of_str_PSet:
  "validate_set_of_str (PSet xs) = Inr () \<longleftrightarrow> list_all (\<lambda>x. isinstance x T_str) xs"
  by (simp add: validate_set_of_str_def validate_collection_of_type_def)

lemma validate_set_of_expr_PSet:
  "validate_set_of_expr (PSet xs) = Inr () \<longleftrightarrow> list_all (\<lambda>x. isinstance x T_Expression) xs"
  by (simp add: validate_set_of_expr_def validate_collection_of_type_def)

lemma validate_literal_Inr:
  "validate_literal v = Inr () \<longleftrightarrow> v \<in> set precedence_args"
  by (auto simp: validate_literal_def precedence_args_def list_ex_iff)

lemma validate_literal_Inl:
  "v \<notin> set precedence_args \<Longrightarrow> validate_literal v = Inl ValueError"
  by (auto simp: validate_literal_def precedence_args_def list_ex_iff)

text \<open>
  C3, as amended. The \<^verbatim>\<open>paths\<close> of every constructed item is the set coerced from the
  \<^verbatim>\<open>path\<close> field and all its elements are strings, but it may be empty: when \<^verbatim>\<open>path\<close>
  coerces to the empty set, the record is accepted whenever it is accepted with a path
  string put in, and the item is the same but for its empty \<^verbatim>\<open>paths\<close>.
\<close>

theorem paths_set_of_str:
  "(AnnotationsItem_from_dict parse values = Inr item \<longrightarrow>
      str_to_set (dict_get values ''path'') = Inr (paths item) \<and>
      list_all (\<lambda>x. isinstance x T_str) (paths item)) \<and>
   (str_to_set (dict_get values ''path'') = Inr [] \<and>
    AnnotationsItem_from_dict parse ((''path'', PStr s) # values) = Inr item \<longrightarrow>
      AnnotationsItem_from_dict parse values = Inr (item\<lparr>paths := []\<rparr>))"
proof -
  have first: "str_to_set (dict_get values ''path'') = Inr (paths item) \<and>
      list_all (\<lambda>x. isinstance x T_str) (paths item)"
    if "AnnotationsItem_from_dict parse values = Inr item"
    using that
    by (auto simp: AnnotationsItem_from_dict_def AnnotationsItem_init_Inr
          validate_set_of_str_PSet)
  have other: "dict_get ((''path'', PStr s) # values) k = dict_get values k"
    if "k \<noteq> ''path''" for k
    using that by (simp add: dict_get_def dict_get_default_def)
  have second: "AnnotationsItem_from_dict parse values = Inr (item\<lparr>paths := []\<rparr>)"
    if a: "str_to_set (dict_get values ''path'') = Inr []"
      and b: "AnnotationsItem_from_dict parse ((''path'', PStr s) # values) = Inr item"
  proof -
    from b have "AnnotationsItem_init parse (dict_get ((''path'', PStr s) # values) ''path'')
         (dict_get values ''precedence'') (dict_get values ''SPDX-FileCopyrightText'')
         (dict_get values ''SPDX-License-Identifier'') = Inr item"
      by (simp add: AnnotationsItem_from_dict_def other)
    with a show ?thesis
      by (auto simp: AnnotationsItem_from_dict_def AnnotationsItem_init_Inr
            validate_set_of_str_PSet)
  qed
  from first second show ?thesis by blast
qed

text \<open>
  Both parts at concrete records: one with two path patterns, and one whose \<^verbatim>\<open>path\<close>
  is the empty list.
\<close>

theorem paths_set_of_str_witness:
  "AnnotationsItem_from_dict sample_parse
     [(''path'', PList [PStr ''src/*'', PStr ''doc/*'']), (''precedence'', PStr ''aggregate''),
      (''SPDX-FileCopyrightText'', PStr ''2023 Jane Doe''),
      (''SPDX-License-Identifier'', PStr ''MIT'')]
   = Inr \<lparr>paths = [PStr ''src/*'', PStr ''doc/*''], precedence = PStr ''aggregate'',
          copyright_lines = [PStr ''2023 Jane Doe''],
          spdx_expressions = [PExpr [''MIT'']]\<rparr> \<and>
   str_to_set (PList [PStr ''src/*'', PStr ''doc/*''] :: string list pyval)
     = Inr [PStr ''src/*'', PStr ''doc/*''] \<and>
   list_all (\<lambda>x. isinstance x T_str) [PStr ''src/*'' :: string list pyval, PStr ''doc/*''] \<and>
   str_to_set (PList [] :: string list pyval) = Inr [] \<and>
   AnnotationsItem_from_dict sample_parse
     [(''path'', PStr ''src/*''), (''path'', PList []), (''precedence'', PStr ''toml''),
      (''SPDX-FileCopyrightText'', PStr ''2023 Jane Doe''),
      (''SPDX-License-Identifier'', PStr ''MIT'')]
   = Inr \<lparr>paths = [PStr ''src/*''], precedence = PStr ''toml'',
          copyright_lines = [PStr ''2023 Jane Doe''],
          spdx_expressions = [PExpr [''MIT'']]\<rparr> \<and>
   AnnotationsItem_from_dict sample_parse
     [(''path'', PList []), (''precedence'', PStr ''toml''),
      (''SPDX-FileCopyrightText'', PStr ''2023 Jane Doe''),
      (''SPDX-License-Identifier'', PStr ''MIT'')]
   = Inr \<lparr>paths = [], precedence = PStr ''toml'',
          copyright_lines = [PStr ''2023 Jane Doe''],
          spdx_expressions = [PExpr [''MIT'']]\<rparr>"
  using paths_set_of_str [of sample_parse
      "[(''path'', PList [PStr ''src/*'', PStr ''doc/*'']), (''precedence'', PStr ''aggregate''),
        (''SPDX-FileCopyrightText'', PStr ''2023 Jane Doe''),
        (''SPDX-License-Identifier'', PStr ''MIT'')]"
      "\<lparr>paths = [PStr ''src/*'', PStr ''doc/*''], precedence = PStr ''aggregate'',
          copyright_lines = [PStr ''2023 Jane Doe''],
          spdx_expressions = [PExpr [''MIT'']]\<rparr>" "''x''"]
    paths_set_of_str [of sample_parse
      "[(''path'', PList []), (''precedence'', PStr ''toml''),
        (''SPDX-FileCopyrightText'', PStr ''2023 Jane Doe''),
        (''SPDX-License-Identifier'', PStr ''MIT'')]"
      "\<lparr>paths = [PStr ''src/*''], precedence = PStr ''toml'',
          copyright_lines = [PStr ''2023 Jane Doe''],
          spdx_expressions = [PExpr [''MIT'']]\<rparr>" "''src/*''"]
  by (simp add: model_defs)

text \<open>
  C3 as stated fails: the record with \<^verbatim>\<open>path = []\<close> and the other fields valid is
  accepted, and the item has no path.
\<close>

theorem empty_paths_accepted:
  "AnnotationsItem_from_dict sample_parse
     [(''path'', PList []), (''precedence'', PStr ''toml''),
      (''SPDX-FileCopyrightText'', PStr ''2023 Jane Doe''),
      (''SPDX-License-Identifier'', PStr ''MIT'')]
   = Inr \<lparr>paths = [], precedence = PStr ''toml'',
          copyright_lines = [PStr ''2023 Jane Doe''],
          spdx_expressions = [PExpr [''MIT'']]\<rparr>"
  by (simp add: model_defs)

text \<open>
  C10. \<^verbatim>\<open>AnnotationsItem.from_dict\<close> depends on its record through the four keys
  only: two records that agree on them give the same outcome, item or exception, and
  so a binding for any other key changes nothing.
\<close>

theorem from_dict_reads_four_keys:
  "((\<forall>k \<in> set annotation_keys. map_of values k = map_of values' k) \<longrightarrow>
      AnnotationsItem_from_dict parse values = AnnotationsItem_from_dict parse values') \<and>
   (k \<notin> set annotation_keys \<longrightarrow>
      AnnotationsItem_from_dict parse ((k, v) # values) = AnnotationsItem_from_dict parse values)"
  by (simp add: annotation_keys_def AnnotationsItem_from_dict_def dict_get_def
        dict_get_default_def)

text \<open>
  Two records that differ in the keys \<^verbatim>\<open>comment\<close> and \<^verbatim>\<open>note\<close> only, and the item
  that both give. The proof checks that they agree on each of the four keys.
\<close>

theorem from_dict_reads_four_keys_witness:
  "map_of [(''path'', PStr ''src/*''), (''precedence'', PStr ''file''),
           (''SPDX-FileCopyrightText'', PStr ''2023 Jane Doe''),
           (''SPDX-License-Identifier'', PStr ''MIT''),
           (''comment'', PInt 1)] ''SPDX-License-Identifier''
    = map_of [(''note'', PList []), (''path'', PStr ''src/*''), (''precedence'', PStr ''file''),
              (''SPDX-FileCopyrightText'', PStr ''2023 Jane Doe''),
              (''SPDX-License-Identifier'', PStr ''MIT'' :: string list pyval)]
        ''SPDX-License-Identifier'' \<and>
   AnnotationsItem_from_dict sample_parse
     [(''path'', PStr ''src/*''), (''precedence'', PStr ''file''),
      (''SPDX-FileCopyrightText'', PStr ''2023 Jane Doe''),
      (''SPDX-License-Identifier'', PStr ''MIT''),
      (''comment'', PInt 1)]
   = AnnotationsItem_from_dict sample_parse
     [(''note'', PList []), (''path'', PStr ''src/*''), (''precedence'', PStr ''file''),
      (''SPDX-FileCopyrightText'', PStr ''2023 Jane Doe''),
      (''SPDX-License-Identifier'', PStr ''MIT'')] \<and>
   ''note'' \<notin> set annotation_keys \<and>
   AnnotationsItem_from_dict sample_parse
     [(''note'', PList []), (''path'', PStr ''src/*''), (''precedence'', PStr ''file''),
      (''SPDX-FileCopyrightText'', PStr ''2023 Jane Doe''),
      (''SPDX-License-Identifier'', PStr ''MIT'')]
   = Inr \<lparr>paths = [PStr ''src/*''], precedence = PStr ''file'',
          copyright_lines = [PStr ''2023 Jane Doe''],
          spdx_expressions = [PExpr [''MIT'']]\<rparr>"
proof -
  have keys: "\<forall>k \<in> set annotation_keys.
      map_of [(''path'', PStr ''src/*''), (''precedence'', PStr ''file''),
              (''SPDX-FileCopyrightText'', PStr ''2023 Jane Doe''),
              (''SPDX-License-Identifier'', PStr ''MIT''),
              (''comment'', PInt 1)] k
    = map_of [(''note'', PList []), (''path'', PStr ''src/*''), (''precedence'', PStr ''file''),
              (''SPDX-FileCopyrightText'', PStr ''2023 Jane Doe''),
              (''SPDX-License-Identifier'', PStr ''MIT'' :: string list pyval)] k"
    by (simp add: annotation_keys_def)
  have extra: "''note'' \<notin> set annotation_keys" by (simp add: annotation_keys_def)
  have base: "AnnotationsItem_from_dict sample_parse
     [(''path'', PStr ''src/*''), (''precedence'', PStr ''file''),
      (''SPDX-FileCopyrightText'', PStr ''2023 Jane Doe''),
      (''SPDX-License-Identifier'', PStr ''MIT'')]
   = Inr \<lparr>paths = [PStr ''src/*''], precedence = PStr ''file'',
          copyright_lines = [PStr ''2023 Jane Doe''],
          spdx_expressions = [PExpr [''MIT'']]\<rparr>"
    by (simp add: model_defs)
  from keys extra base
    from_dict_reads_four_keys [of
      "[(''path'', PStr ''src/*''), (''precedence'', PStr ''file''),
        (''SPDX-FileCopyrightText'', PStr ''2023 Jane Doe''),
        (''SPDX-License-Identifier'', PStr ''MIT''),
        (''comment'', PInt 1)]"
      "[(''note'', PList []), (''path'', PStr ''src/*''), (''precedence'', PStr ''file''),
        (''SPDX-FileCopyrightText'', PStr ''2023 Jane Doe''),
        (''SPDX-License-Identifier'', PStr ''MIT'')]"
      sample_parse "''note''" "PList []"]
    from_dict_reads_four_keys [of
      "[(''path'', PStr ''src/*''), (''precedence'', PStr ''file''),
        (''SPDX-FileCopyrightText'', PStr ''2023 Jane Doe''),
        (''SPDX-License-Identifier'', PStr ''MIT'')]"
      "[]" sample_parse "''note''" "PList []"]
  show ?thesis by simp
qed

subsection \<open>The exceptions of AnnotationsItem.from_dict\<close>

lemma py_set_Inl: "py_set xs = Inl e \<Longrightarrow> e = TypeError"
  by (simp add: py_set_def split: if_splits)

lemma str_to_set_Inl: "str_to_set v = Inl e \<Longrightarrow> e = TypeError"
  by (auto simp: str_to_set_def split: if_splits option.splits dest: py_set_Inl)

lemma validate_collection_Inl:
  "validate_collection_of_type v t u = Inl e \<Longrightarrow> e = TypeError"
  by (auto simp: validate_collection_of_type_def split: if_splits option.splits)

lemma parse_into_Inl:
  "parse_into parse acc s = Inl e \<Longrightarrow> \<exists>x \<in> set s. parse x = Inl e"
  by (induction s arbitrary: acc) (auto split: sum.splits)

lemma str_to_set_of_expr_Inl:
  "str_to_set_of_expr parse v = Inl e \<Longrightarrow> e = TypeError \<or> (\<exists>x. parse x = Inl e)"
  by (auto simp: str_to_set_of_expr_def split: sum.splits
        dest: str_to_set_Inl parse_into_Inl)

lemma AnnotationsItem_init_Inl:
  "AnnotationsItem_init parse a b c d = Inl e \<Longrightarrow>
     e = ValueError \<or> e = TypeError \<or> (\<exists>x. parse x = Inl e)"
  unfolding AnnotationsItem_init_def validate_set_of_str_def validate_set_of_expr_def
  by (auto split: sum.splits
        dest: str_to_set_Inl str_to_set_of_expr_Inl validate_collection_Inl
        simp: validate_literal_def split: if_splits)

lemma isinstance_exc_GLPE:
  "\<not> isinstance_exc ValueError GlobalLicensingParseError"
  "\<not> isinstance_exc TypeError GlobalLicensingParseError"
  by (simp_all add: isinstance_exc_def)

text \<open>
  What \<^verbatim>\<open>AnnotationsItem.from_dict\<close> does with a record whose \<^verbatim>\<open>precedence\<close> is
  absent or is none of \<^verbatim>\<open>aggregate\<close>, \<^verbatim>\<open>file\<close> and \<^verbatim>\<open>toml\<close>: it always rejects it.
  The exception is the built-in \<^verbatim>\<open>ValueError\<close> of \<^verbatim>\<open>_validate_literal\<close> when the three
  converters succeed and \<^verbatim>\<open>paths\<close> is a set of strings; otherwise it is the
  \<^verbatim>\<open>TypeError\<close> of an earlier step or what the expression parser raised. Neither
  \<^verbatim>\<open>ValueError\<close> nor \<^verbatim>\<open>TypeError\<close> is an instance of \<^verbatim>\<open>GlobalLicensingParseError\<close>.
\<close>

theorem from_dict_bad_precedence:
  "dict_get values ''precedence'' \<notin> set precedence_args \<longrightarrow>
     (\<exists>e. AnnotationsItem_from_dict parse values = Inl e \<and>
          ((e = ValueError \<or> e = TypeError) \<and> \<not> isinstance_exc e GlobalLicensingParseError
           \<or> (\<exists>x. parse x = Inl e))) \<and>
     (str_to_set (dict_get values ''path'') = Inr ps \<and>
      validate_set_of_str (PSet ps) = Inr () \<and>
      str_to_set (dict_get values ''SPDX-FileCopyrightText'') = Inr cs \<and>
      str_to_set_of_expr parse (dict_get values ''SPDX-License-Identifier'') = Inr xs \<longrightarrow>
        AnnotationsItem_from_dict parse values = Inl ValueError)"
proof (intro impI conjI)
  assume bad: "dict_get values ''precedence'' \<notin> set precedence_args"
  then have lit: "validate_literal (dict_get values ''precedence'') = Inl ValueError"
    by (rule validate_literal_Inl)
  have "\<not> (\<exists>item. AnnotationsItem_from_dict parse values = Inr item)"
    using bad by (auto simp: AnnotationsItem_from_dict_def AnnotationsItem_init_Inr
        validate_literal_Inr)
  then obtain e where e: "AnnotationsItem_from_dict parse values = Inl e"
    by (cases "AnnotationsItem_from_dict parse values") auto
  then have "e = ValueError \<or> e = TypeError \<or> (\<exists>x. parse x = Inl e)"
    unfolding AnnotationsItem_from_dict_def by (rule AnnotationsItem_init_Inl)
  with e isinstance_exc_GLPE
  show "\<exists>e. AnnotationsItem_from_dict parse values = Inl e \<and>
          ((e = ValueError \<or> e = TypeError) \<and> \<not> isinstance_exc e GlobalLicensingParseError
           \<or> (\<exists>x. parse x = Inl e))"
    by blast
  assume "str_to_set (dict_get values ''path'') = Inr ps \<and>
      validate_set_of_str (PSet ps) = Inr () \<and>
      str_to_set (dict_get values ''SPDX-FileCopyrightText'') = Inr cs \<and>
      str_to_set_of_expr parse (dict_get values ''SPDX-License-Identifier'') = Inr xs"
  with lit show "AnnotationsItem_from_dict parse values = Inl ValueError"
    by (simp add: AnnotationsItem_from_dict_def AnnotationsItem_init_def)
qed

text \<open>A record without \<^verbatim>\<open>precedence\<close> whose other fields are valid.\<close>

theorem from_dict_bad_precedence_witness:
  "dict_get [(''path'', PStr ''src/*''),
      (''SPDX-FileCopyrightText'', PStr ''2023 Jane Doe''),
      (''SPDX-License-Identifier'', PStr ''MIT'' :: string list pyval)] ''precedence''
     \<notin> set precedence_args \<and>
   str_to_set (PStr ''src/*'' :: string list pyval) = Inr [PStr ''src/*''] \<and>
   validate_set_of_str (PSet [PStr ''src/*'' :: string list pyval]) = Inr () \<and>
   str_to_set (PStr ''2023 Jane Doe'' :: string list pyval) = Inr [PStr ''2023 Jane Doe''] \<and>
   str_to_set_of_expr sample_parse (PStr ''MIT'') = Inr [PExpr [''MIT'']] \<and>
   AnnotationsItem_from_dict sample_parse
     [(''path'', PStr ''src/*''),
      (''SPDX-FileCopyrightText'', PStr ''2023 Jane Doe''),
      (''SPDX-License-Identifier'', PStr ''MIT'')]
   = Inl ValueError"
proof -
  have bad: "dict_get [(''path'', PStr ''src/*''),
      (''SPDX-FileCopyrightText'', PStr ''2023 Jane Doe''),
      (''SPDX-License-Identifier'', PStr ''MIT'' :: string list pyval)] ''precedence''
     \<notin> set precedence_args"
    by (simp add: dict_get_def dict_get_default_def precedence_args_def)
  have conv: "str_to_set (PStr ''src/*'' :: string list pyval) = Inr [PStr ''src/*''] \<and>
   validate_set_of_str (PSet [PStr ''src/*'' :: string list pyval]) = Inr () \<and>
   str_to_set (PStr ''2023 Jane Doe'' :: string list pyval) = Inr [PStr ''2023 Jane Doe''] \<and>
   str_to_set_of_expr sample_parse (PStr ''MIT'') = Inr [PExpr [''MIT'']]"
    by (simp add: model_defs)
  have get: "dict_get [(''path'', PStr ''src/*''),
      (''SPDX-FileCopyrightText'', PStr ''2023 Jane Doe''),
      (''SPDX-License-Identifier'', PStr ''MIT'' :: string list pyval)] ''path'' = PStr ''src/*''"
    "dict_get [(''path'', PStr ''src/*''),
      (''SPDX-FileCopyrightText'', PStr ''2023 Jane Doe''),
      (''SPDX-License-Identifier'', PStr ''MIT'' :: string list pyval)] ''SPDX-FileCopyrightText''
      = PStr ''2023 Jane Doe''"
    "dict_get [(''path'', PStr ''src/*''),
      (''SPDX-FileCopyrightText'', PStr ''2023 Jane Doe''),
      (''SPDX-License-Identifier'', PStr ''MIT'' :: string list pyval)] ''SPDX-License-Identifier''
      = PStr ''MIT''"
    by (simp_all add: dict_get_def dict_get_default_def)
  from from_dict_bad_precedence [of
      "[(''path'', PStr ''src/*''),
        (''SPDX-FileCopyrightText'', PStr ''2023 Jane Doe''),
        (''SPDX-License-Identifier'', PStr ''MIT'')]"
      sample_parse "[PStr ''src/*'']" "[PStr ''2023 Jane Doe'']" "[PExpr [''MIT'']]"]
    bad conv get
  have "AnnotationsItem_from_dict sample_parse
     [(''path'', PStr ''src/*''),
      (''SPDX-FileCopyrightText'', PStr ''2023 Jane Doe''),
      (''SPDX-License-Identifier'', PStr ''MIT'')]
   = Inl ValueError"
    by simp
  with bad conv show ?thesis by simp
qed

text \<open>
  C2. The claim asks that a record whose \<^verbatim>\<open>precedence\<close> is none of \<^verbatim>\<open>aggregate\<close>,
  \<^verbatim>\<open>file\<close> and \<^verbatim>\<open>toml\<close> fails with a validation error of the
  \<^verbatim>\<open>GlobalLicensingParseError\<close> kind, the class that the module documents (lines 26 to
  29 and 50) as the one for any error in parsing such a file, and into which
  \<^verbatim>\<open>ReuseDep5.from_file\<close> turns a \<^verbatim>\<open>ValueError\<close>. The code does not do that: for
  \<^verbatim>\<open>precedence = "override"\<close> and the other fields valid, \<^verbatim>\<open>AnnotationsItem.from_dict\<close>
  raises the built-in \<^verbatim>\<open>ValueError\<close>, which is not a \<^verbatim>\<open>GlobalLicensingParseError\<close>.
\<close>

theorem bad_precedence_is_ValueError:
  "AnnotationsItem_from_dict sample_parse
     [(''path'', PStr ''src/*''), (''precedence'', PStr ''override''),
      (''SPDX-FileCopyrightText'', PStr ''2023 Jane Doe''),
      (''SPDX-License-Identifier'', PStr ''MIT'')]
   = Inl ValueError \<and>
   \<not> isinstance_exc ValueError GlobalLicensingParseError"
  by (simp add: model_defs isinstance_exc_def)

subsection \<open>The loop over the license expressions\<close>

lemma parse_into_fails:
  "x \<in> set s \<Longrightarrow> parse x = Inl e \<Longrightarrow>
     \<exists>y \<in> set s. \<exists>e'. parse y = Inl e' \<and> parse_into parse acc s = Inl e'"
proof (induction s arbitrary: acc)
  case Nil
  then show ?case by simp
next
  case (Cons a s)
  show ?case
  proof (cases "parse a")
    case (Inl e')
    then show ?thesis by auto
  next
    case (Inr r)
    with Cons.prems have "x \<in> set s" by auto
    from Cons.IH [OF this Cons.prems(2), of "set_add acc (of_parsed r)"] Inr
    show ?thesis by auto
  qed
qed

lemma parse_into_keeps:
  "parse_into parse acc s = Inr xs \<Longrightarrow> set acc \<subseteq> set xs"
proof (induction s arbitrary: acc)
  case Nil
  then show ?case by simp
next
  case (Cons a s)
  then obtain r where r: "parse a = Inr r"
    and rest: "parse_into parse (set_add acc (of_parsed r)) s = Inr xs"
    by (auto split: sum.splits)
  from Cons.IH [OF rest] set_add_keeps [of acc "of_parsed r"] show ?case by auto
qed

lemma parse_into_covers:
  "parse_into parse acc s = Inr xs \<Longrightarrow> x \<in> set s \<Longrightarrow>
     \<exists>r. parse x = Inr r \<and> list_ex (\<lambda>y. py_eq y (of_parsed r)) xs"
proof (induction s arbitrary: acc)
  case Nil
  then show ?case by simp
next
  case (Cons a s)
  then obtain r where r: "parse a = Inr r"
    and rest: "parse_into parse (set_add acc (of_parsed r)) s = Inr xs"
    by (auto split: sum.splits)
  show ?case
  proof (cases "x \<in> set s")
    case True
    from Cons.IH [OF rest True] show ?thesis .
  next
    case False
    with Cons.prems have xa: "x = a" by simp
    have "list_ex (\<lambda>y. py_eq y (of_parsed r)) (set_add acc (of_parsed r))"
      by (rule set_add_has)
    with parse_into_keeps [OF rest]
    have "list_ex (\<lambda>y. py_eq y (of_parsed r)) xs" by (auto simp: list_ex_iff)
    with r xa show ?thesis by simp
  qed
qed

lemma parse_into_from:
  "parse_into parse acc s = Inr xs \<Longrightarrow> v \<in> set xs \<Longrightarrow>
     v \<in> set acc \<or> (\<exists>x \<in> set s. \<exists>r. parse x = Inr r \<and> v = of_parsed r)"
proof (induction s arbitrary: acc)
  case Nil
  then show ?case by simp
next
  case (Cons a s)
  then obtain r where r: "parse a = Inr r"
    and rest: "parse_into parse (set_add acc (of_parsed r)) s = Inr xs"
    by (auto split: sum.splits)
  from Cons.IH [OF rest Cons.prems(2)] set_set_add [of acc "of_parsed r"] r
  show ?case by auto
qed

lemma py_eq_PExpr: "py_eq (PExpr ex) (of_parsed r) \<Longrightarrow> r = Some ex"
  by (cases r) (auto simp: py_eq_def)

lemma isinstance_Expression: "isinstance v T_Expression \<Longrightarrow> \<exists>ex. v = PExpr ex"
  by (cases v) auto

lemma parse_calls_subset: "set (parse_calls parse s) \<subseteq> set s"
  by (induction s) (auto split: sum.splits)

lemma parse_calls_raise:
  "x \<in> set (parse_calls parse s) \<Longrightarrow> parse x = Inl e \<Longrightarrow> parse_into parse acc s = Inl e"
proof (induction s arbitrary: acc)
  case Nil
  then show ?case by simp
next
  case (Cons a s)
  show ?case
  proof (cases "parse a")
    case (Inl e0)
    with Cons.prems show ?thesis by simp
  next
    case (Inr r)
    with Cons.prems have "x \<in> set (parse_calls parse s)" by auto
    from Cons.IH [OF this Cons.prems(2)] Inr show ?thesis by simp
  qed
qed

lemma parse_calls_all:
  "parse_into parse acc s = Inr xs \<Longrightarrow> parse_calls parse s = s"
  by (induction s arbitrary: acc) (auto split: sum.splits)

lemma parse_calls_reach:
  "y \<in> set s \<Longrightarrow> parse y = Inl e \<Longrightarrow>
     \<exists>z \<in> set (parse_calls parse s). \<exists>e'. parse z = Inl e'"
proof (induction s)
  case Nil
  then show ?case by simp
next
  case (Cons a s)
  show ?case
  proof (cases "parse a")
    case (Inl e0)
    then show ?thesis by simp
  next
    case (Inr r)
    with Cons.prems have "y \<in> set s" by auto
    from Cons.IH [OF this Cons.prems(2)] Inr show ?thesis by auto
  qed
qed

text \<open>
  C5. During the construction of an item, the elements of the set that the
  \<^verbatim>\<open>SPDX-License-Identifier\<close> field coerces to are passed to the parser one by one.
  If the parser raises on an element it is called on, the construction raises that
  same exception, and so gives no item. When an item is constructed, the parser was
  called on every element of the set and returned an expression each time, and the
  expressions of the item are exactly these. And whenever the parser would raise on an
  element of the set, no item is constructed; if moreover the \<^verbatim>\<open>path\<close> and
  \<^verbatim>\<open>SPDX-FileCopyrightText\<close> fields coerce to sets, so that the loop is reached, the
  parser is called on such an element and the construction raises what it raised.
\<close>

theorem spdx_expressions_fail_fast:
  "(x \<in> set (AnnotationsItem_parse_calls parse values) \<and> parse x = Inl e \<longrightarrow>
      AnnotationsItem_from_dict parse values = Inl e) \<and>
   (AnnotationsItem_from_dict parse values = Inr item \<longrightarrow>
      str_to_set (dict_get values ''SPDX-License-Identifier'')
        = Inr (AnnotationsItem_parse_calls parse values) \<and>
      (\<forall>y \<in> set (AnnotationsItem_parse_calls parse values).
         \<exists>ex. parse y = Inr (Some ex) \<and> PExpr ex \<in> set (spdx_expressions item)) \<and>
      (\<forall>v \<in> set (spdx_expressions item).
         \<exists>y \<in> set (AnnotationsItem_parse_calls parse values).
           \<exists>ex. parse y = Inr (Some ex) \<and> v = PExpr ex)) \<and>
   (str_to_set (dict_get values ''SPDX-License-Identifier'') = Inr s \<and>
    y \<in> set s \<and> parse y = Inl e' \<longrightarrow>
      (\<exists>e''. AnnotationsItem_from_dict parse values = Inl e'') \<and>
      (str_to_set (dict_get values ''path'') = Inr ps \<and>
       str_to_set (dict_get values ''SPDX-FileCopyrightText'') = Inr cs \<longrightarrow>
         (\<exists>z \<in> set (AnnotationsItem_parse_calls parse values). \<exists>e''.
            z \<in> set s \<and> parse z = Inl e'' \<and>
            AnnotationsItem_from_dict parse values = Inl e'')))"
proof -
  let ?lic = "dict_get values ''SPDX-License-Identifier''"
  let ?calls = "AnnotationsItem_parse_calls parse values"
  have raised: "AnnotationsItem_from_dict parse values = Inl e"
    if "x \<in> set ?calls" "parse x = Inl e" for x e
  proof -
    from that(1) obtain ps where ps: "str_to_set (dict_get values ''path'') = Inr ps"
      by (cases "str_to_set (dict_get values ''path'')")
        (auto simp: AnnotationsItem_parse_calls_def)
    from that(1) ps obtain cs
      where cs: "str_to_set (dict_get values ''SPDX-FileCopyrightText'') = Inr cs"
      by (cases "str_to_set (dict_get values ''SPDX-FileCopyrightText'')")
        (auto simp: AnnotationsItem_parse_calls_def)
    from that(1) ps cs obtain s where s: "str_to_set ?lic = Inr s"
      by (cases "str_to_set ?lic") (auto simp: AnnotationsItem_parse_calls_def)
    note conv = ps cs s
    from conv have calls: "?calls = parse_calls parse s"
      by (simp add: AnnotationsItem_parse_calls_def)
    from that calls have "parse_into parse [] s = Inl e"
      by (simp add: parse_calls_raise)
    with conv show ?thesis
      by (simp add: AnnotationsItem_from_dict_def AnnotationsItem_init_def
            str_to_set_of_expr_def)
  qed
  have built: "str_to_set ?lic = Inr ?calls \<and>
      parse_into parse [] ?calls = Inr (spdx_expressions item) \<and>
      list_all (\<lambda>x. isinstance x T_Expression) (spdx_expressions item)"
    if "AnnotationsItem_from_dict parse values = Inr item"
  proof -
    from that obtain ps cs s where conv: "str_to_set (dict_get values ''path'') = Inr ps"
      "str_to_set (dict_get values ''SPDX-FileCopyrightText'') = Inr cs"
      "str_to_set ?lic = Inr s" and p: "parse_into parse [] s = Inr (spdx_expressions item)"
      and t: "list_all (\<lambda>x. isinstance x T_Expression) (spdx_expressions item)"
      by (auto simp: AnnotationsItem_from_dict_def AnnotationsItem_init_Inr
            validate_set_of_expr_PSet str_to_set_of_expr_def split: sum.splits)
    from conv parse_calls_all [OF p] have "?calls = s"
      by (simp add: AnnotationsItem_parse_calls_def)
    with conv p t show ?thesis by simp
  qed
  have c: "\<exists>ex. parse y = Inr (Some ex) \<and> PExpr ex \<in> set (spdx_expressions item)"
    if "AnnotationsItem_from_dict parse values = Inr item" "y \<in> set ?calls" for y
  proof -
    from built [OF that(1)] have p: "parse_into parse [] ?calls = Inr (spdx_expressions item)"
      and t: "list_all (\<lambda>x. isinstance x T_Expression) (spdx_expressions item)" by simp_all
    from parse_into_covers [OF p that(2)] obtain r z where r: "parse y = Inr r"
      and z: "z \<in> set (spdx_expressions item)" "py_eq z (of_parsed r)"
      by (auto simp: list_ex_iff)
    from t z(1) have "isinstance z T_Expression" by (simp add: list_all_iff)
    from isinstance_Expression [OF this] obtain ex where ex: "z = PExpr ex" by blast
    with z(2) have "r = Some ex" by (auto dest: py_eq_PExpr)
    with r z(1) ex show ?thesis by auto
  qed
  have d: "\<exists>y \<in> set ?calls. \<exists>ex. parse y = Inr (Some ex) \<and> v = PExpr ex"
    if "AnnotationsItem_from_dict parse values = Inr item"
      "v \<in> set (spdx_expressions item)" for v
  proof -
    from built [OF that(1)] have p: "parse_into parse [] ?calls = Inr (spdx_expressions item)"
      and t: "list_all (\<lambda>x. isinstance x T_Expression) (spdx_expressions item)" by simp_all
    from parse_into_from [OF p that(2)] obtain y r where y: "y \<in> set ?calls" "parse y = Inr r"
      and v: "v = of_parsed r" by auto
    from t that(2) have "isinstance v T_Expression" by (simp add: list_all_iff)
    from isinstance_Expression [OF this] obtain ex where "v = PExpr ex" by blast
    with v have "r = Some ex" by (cases r) auto
    with y v show ?thesis by auto
  qed
  have none: "\<exists>e''. AnnotationsItem_from_dict parse values = Inl e''"
    if "str_to_set ?lic = Inr s" "y \<in> set s" "parse y = Inl e'"
  proof -
    from parse_into_fails [of y s parse e' "[]"] that
    have "\<exists>e''. str_to_set_of_expr parse ?lic = Inl e''"
      by (auto simp: str_to_set_of_expr_def)
    then have "\<not> (\<exists>item. AnnotationsItem_from_dict parse values = Inr item)"
      by (auto simp: AnnotationsItem_from_dict_def AnnotationsItem_init_Inr)
    then show ?thesis by (cases "AnnotationsItem_from_dict parse values") auto
  qed
  have reach: "\<exists>z \<in> set ?calls. \<exists>e''. z \<in> set s \<and> parse z = Inl e'' \<and>
            AnnotationsItem_from_dict parse values = Inl e''"
    if "str_to_set ?lic = Inr s" "y \<in> set s" "parse y = Inl e'"
      "str_to_set (dict_get values ''path'') = Inr ps"
      "str_to_set (dict_get values ''SPDX-FileCopyrightText'') = Inr cs"
  proof -
    from that(1,4,5) have calls: "?calls = parse_calls parse s"
      by (simp add: AnnotationsItem_parse_calls_def)
    from parse_calls_reach [of y s parse e'] that(2,3) obtain z e'' where z: "z \<in> set (parse_calls parse s)"
      "parse z = Inl e''" by blast
    from z(1) parse_calls_subset [of parse s] have "z \<in> set s" by auto
    with z calls raised [of z e''] show ?thesis by auto
  qed
  from raised built c d none reach show ?thesis by blast
qed

text \<open>
  A record whose second expression has a dangling operator: the parser is called on
  the first two expressions and not on the third. And a record with two expressions
  that parse.
\<close>

theorem spdx_expressions_fail_fast_witness:
  "AnnotationsItem_parse_calls sample_parse
     [(''path'', PStr ''src/*''), (''precedence'', PStr ''toml''),
      (''SPDX-FileCopyrightText'', PStr ''2023 Jane Doe''),
      (''SPDX-License-Identifier'', PList [PStr ''MIT'', PStr ''MIT OR'', PStr ''Apache-2.0''])]
     = [PStr ''MIT'', PStr ''MIT OR''] \<and>
   sample_parse (PStr ''MIT OR'') = Inl ExpressionError \<and>
   AnnotationsItem_from_dict sample_parse
     [(''path'', PStr ''src/*''), (''precedence'', PStr ''toml''),
      (''SPDX-FileCopyrightText'', PStr ''2023 Jane Doe''),
      (''SPDX-License-Identifier'', PList [PStr ''MIT'', PStr ''MIT OR'', PStr ''Apache-2.0''])]
   = Inl ExpressionError \<and>
   AnnotationsItem_from_dict sample_parse
     [(''path'', PStr ''src/*''), (''precedence'', PStr ''toml''),
      (''SPDX-FileCopyrightText'', PStr ''2023 Jane Doe''),
      (''SPDX-License-Identifier'', PList [PStr ''MIT'', PStr ''GPL-3.0-or-later''])]
   = Inr \<lparr>paths = [PStr ''src/*''], precedence = PStr ''toml'',
          copyright_lines = [PStr ''2023 Jane Doe''],
          spdx_expressions = [PExpr [''MIT''], PExpr [''GPL-3.0-or-later'']]\<rparr> \<and>
   AnnotationsItem_parse_calls sample_parse
     [(''path'', PStr ''src/*''), (''precedence'', PStr ''toml''),
      (''SPDX-FileCopyrightText'', PStr ''2023 Jane Doe''),
      (''SPDX-License-Identifier'', PList [PStr ''MIT'', PStr ''GPL-3.0-or-later''])]
     = [PStr ''MIT'', PStr ''GPL-3.0-or-later''] \<and>
   sample_parse (PStr ''GPL-3.0-or-later'') = Inr (Some [''GPL-3.0-or-later''])"
proof -
  let ?bad = "[(''path'', PStr ''src/*''), (''precedence'', PStr ''toml''),
      (''SPDX-FileCopyrightText'', PStr ''2023 Jane Doe''),
      (''SPDX-License-Identifier'',
         PList [PStr ''MIT'', PStr ''MIT OR'', PStr ''Apache-2.0''])]
      :: (string \<times> string list pyval) list"
  let ?good = "[(''path'', PStr ''src/*''), (''precedence'', PStr ''toml''),
      (''SPDX-FileCopyrightText'', PStr ''2023 Jane Doe''),
      (''SPDX-License-Identifier'', PList [PStr ''MIT'', PStr ''GPL-3.0-or-later''])]
      :: (string \<times> string list pyval) list"
  have calls: "AnnotationsItem_parse_calls sample_parse ?bad = [PStr ''MIT'', PStr ''MIT OR'']"
    "AnnotationsItem_parse_calls sample_parse ?good = [PStr ''MIT'', PStr ''GPL-3.0-or-later'']"
    by (simp_all add: AnnotationsItem_parse_calls_def model_defs)
  have fails: "sample_parse (PStr ''MIT OR'') = Inl ExpressionError"
    "sample_parse (PStr ''GPL-3.0-or-later'') = Inr (Some [''GPL-3.0-or-later''])"
    by (simp_all add: model_defs)
  have good: "AnnotationsItem_from_dict sample_parse ?good
     = Inr \<lparr>paths = [PStr ''src/*''], precedence = PStr ''toml'',
          copyright_lines = [PStr ''2023 Jane Doe''],
          spdx_expressions = [PExpr [''MIT''], PExpr [''GPL-3.0-or-later'']]\<rparr>"
    by (simp add: model_defs)
  from calls fails
    spdx_expressions_fail_fast [of "PStr ''MIT OR''" sample_parse ?bad ExpressionError]
  have bad: "AnnotationsItem_from_dict sample_parse ?bad = Inl ExpressionError" by simp
  from calls fails good bad show ?thesis by simp
qed

subsection \<open>ReuseTOML\<close>

text \<open>
  C7. The lookup of a path in a single \<^verbatim>\<open>REUSE.toml\<close> raises \<^verbatim>\<open>NotImplementedError\<close>
  for every document and path, and so never returns a ReuseInfo.
\<close>

theorem ReuseTOML_reuse_info_of_not_implemented:
  "ReuseTOML_reuse_info_of self p = Inl NotImplementedError"
  by (simp add: ReuseTOML_reuse_info_of_def)

lemma ReuseTOML_init_Inr:
  "ReuseTOML_init src v items = Inr doc \<longleftrightarrow>
     isinstance v T_int \<and> doc = \<lparr>source = src, version = v, annotations = items\<rparr>"
  by (auto simp: ReuseTOML_init_def)

lemma isinstance_int_iff:
  "isinstance v T_int \<longleftrightarrow> (\<exists>i. v = PInt i) \<or> (\<exists>b. v = PBool b)"
  by (cases v) auto

text \<open>
  C1, as amended. \<^verbatim>\<open>ReuseTOML.from_dict\<close> accepts a \<^verbatim>\<open>version\<close> exactly when it is an
  instance of \<^verbatim>\<open>int\<close>, that is an integer or, \<^verbatim>\<open>bool\<close> being a subclass of \<^verbatim>\<open>int\<close>, a
  boolean. A record whose \<^verbatim>\<open>version\<close> is absent or is any other value is rejected. A
  record whose \<^verbatim>\<open>version\<close> is an integer or a boolean is accepted when its
  annotations construct, whatever the integer: the module has no list of supported
  versions, and the document holds the \<^verbatim>\<open>version\<close> of the record unchanged.
  \<^verbatim>\<open>from_toml\<close> is \<^verbatim>\<open>from_dict\<close> on the record that the TOML text parses to.
\<close>

theorem ReuseTOML_from_dict_version:
  "(\<not> ((\<exists>i. dict_get values ''version'' = PInt i) \<or>
        (\<exists>b. dict_get values ''version'' = PBool b)) \<longrightarrow>
      (\<exists>e. ReuseTOML_from_dict parse values src = Inl e)) \<and>
   (ReuseTOML_from_dict parse values src = Inr doc \<longrightarrow>
      version doc = dict_get values ''version'' \<and> source doc = src \<and>
      ((\<exists>i. version doc = PInt i) \<or> (\<exists>b. version doc = PBool b))) \<and>
   (((\<exists>i. dict_get values ''version'' = PInt i) \<or>
     (\<exists>b. dict_get values ''version'' = PBool b)) \<and>
    iter_of (dict_get_default values ''annotations'' (PList [])) = Some ds \<and>
    from_dict_each parse ds = Inr items \<longrightarrow>
      ReuseTOML_from_dict parse values src =
        Inr \<lparr>source = src, version = dict_get values ''version'', annotations = items\<rparr>) \<and>
   (loads toml = Inr values \<longrightarrow>
      ReuseTOML_from_toml loads parse toml src = ReuseTOML_from_dict parse values src)"
proof -
  have stored: "version doc = dict_get values ''version'' \<and> source doc = src \<and>
      ((\<exists>i. version doc = PInt i) \<or> (\<exists>b. version doc = PBool b))"
    if "ReuseTOML_from_dict parse values src = Inr doc" for doc
  proof -
    from that have "version doc = dict_get values ''version'' \<and> source doc = src \<and>
        isinstance (version doc) T_int"
      by (auto simp: ReuseTOML_from_dict_def ReuseTOML_init_Inr
            split: option.splits sum.splits)
    with isinstance_int_iff [of "version doc"] show ?thesis by blast
  qed
  have rejected: "\<exists>e. ReuseTOML_from_dict parse values src = Inl e"
    if "\<not> ((\<exists>i. dict_get values ''version'' = PInt i) \<or>
        (\<exists>b. dict_get values ''version'' = PBool b))"
  proof (cases "ReuseTOML_from_dict parse values src")
    case (Inl e)
    then show ?thesis by blast
  next
    case (Inr doc)
    from stored [OF this] that show ?thesis by metis
  qed
  have built: "ReuseTOML_from_dict parse values src =
        Inr \<lparr>source = src, version = dict_get values ''version'', annotations = items\<rparr>"
    if "(\<exists>i. dict_get values ''version'' = PInt i) \<or>
        (\<exists>b. dict_get values ''version'' = PBool b)"
      "iter_of (dict_get_default values ''annotations'' (PList [])) = Some ds"
      "from_dict_each parse ds = Inr items"
  proof -
    from that(1) isinstance_int_iff [of "dict_get values ''version''"]
    have "isinstance (dict_get values ''version'') T_int" by blast
    with that(2,3) show ?thesis
      by (simp add: ReuseTOML_from_dict_def ReuseTOML_init_def)
  qed
  have toml: "ReuseTOML_from_toml loads parse toml src = ReuseTOML_from_dict parse values src"
    if "loads toml = Inr values"
    using that by (simp add: ReuseTOML_from_toml_def)
  from stored rejected built toml show ?thesis by blast
qed

text \<open>
  A record whose version is the string \<^verbatim>\<open>"1"\<close>, a record without a version, a record
  whose version is \<^verbatim>\<open>true\<close>, a record with version 1 and one annotation, and a TOML
  text.
\<close>

theorem ReuseTOML_from_dict_version_witness:
  "dict_get [(''version'', PStr ''1'' :: string list pyval)] ''version'' = PStr ''1'' \<and>
   (\<exists>e. ReuseTOML_from_dict sample_parse [(''version'', PStr ''1'')] ''REUSE.toml'' = Inl e) \<and>
   dict_get [(''annotations'', PList [] :: string list pyval)] ''version'' = PNone \<and>
   (\<exists>e. ReuseTOML_from_dict sample_parse [(''annotations'', PList [])] ''REUSE.toml''
          = Inl e) \<and>
   ReuseTOML_from_dict sample_parse [(''version'', PBool True)] ''REUSE.toml''
     = Inr \<lparr>source = ''REUSE.toml'', version = PBool True, annotations = []\<rparr> \<and>
   ReuseTOML_from_dict sample_parse
     [(''version'', PInt 1),
      (''annotations'', PList [PDict
         [(''path'', PStr ''src/*''), (''precedence'', PStr ''aggregate''),
          (''SPDX-FileCopyrightText'', PStr ''2023 Jane Doe''),
          (''SPDX-License-Identifier'', PStr ''MIT'')]])]
     ''REUSE.toml''
   = Inr \<lparr>source = ''REUSE.toml'', version = PInt 1,
          annotations =
            [\<lparr>paths = [PStr ''src/*''], precedence = PStr ''aggregate'',
              copyright_lines = [PStr ''2023 Jane Doe''],
              spdx_expressions = [PExpr [''MIT'']]\<rparr>]\<rparr> \<and>
   sample_loads ''version = 1'' = Inr [(''version'', PInt 1)] \<and>
   ReuseTOML_from_toml sample_loads sample_parse ''version = 1'' ''REUSE.toml''
     = Inr \<lparr>source = ''REUSE.toml'', version = PInt 1, annotations = []\<rparr>"
proof -
  have gets: "dict_get [(''version'', PStr ''1'' :: string list pyval)] ''version'' = PStr ''1''"
    "dict_get [(''annotations'', PList [] :: string list pyval)] ''version'' = PNone"
    "dict_get [(''version'', PBool True :: string list pyval)] ''version'' = PBool True"
    "dict_get [(''version'', PInt 1 :: string list pyval)] ''version'' = PInt 1"
    by (simp_all add: dict_get_def dict_get_default_def)
  have anns: "iter_of (dict_get_default [(''version'', PBool True :: string list pyval)]
        ''annotations'' (PList [])) = Some []"
    "iter_of (dict_get_default [(''version'', PInt 1 :: string list pyval)]
        ''annotations'' (PList [])) = Some []"
    "from_dict_each sample_parse [] = Inr []"
    by (simp_all add: dict_get_default_def)
  have loads: "sample_loads ''version = 1'' = Inr [(''version'', PInt 1)]"
    by (simp add: sample_loads_def)
  have str: "\<exists>e. ReuseTOML_from_dict sample_parse [(''version'', PStr ''1'')] ''REUSE.toml''
      = Inl e"
    using gets ReuseTOML_from_dict_version [of "[(''version'', PStr ''1'')]" sample_parse
        "''REUSE.toml''" "\<lparr>source = ''REUSE.toml'', version = PInt 1, annotations = []\<rparr>" "[]" "[]" sample_loads "''version = 1''"]
    by auto
  have absent: "\<exists>e. ReuseTOML_from_dict sample_parse [(''annotations'', PList [])]
      ''REUSE.toml'' = Inl e"
    using gets ReuseTOML_from_dict_version [of "[(''annotations'', PList [])]" sample_parse
        "''REUSE.toml''" "\<lparr>source = ''REUSE.toml'', version = PInt 1, annotations = []\<rparr>" "[]" "[]" sample_loads "''version = 1''"]
    by auto
  have bool: "ReuseTOML_from_dict sample_parse [(''version'', PBool True)] ''REUSE.toml''
     = Inr \<lparr>source = ''REUSE.toml'', version = PBool True, annotations = []\<rparr>"
    using gets anns ReuseTOML_from_dict_version [of "[(''version'', PBool True)]" sample_parse
        "''REUSE.toml''" "\<lparr>source = ''REUSE.toml'', version = PInt 1, annotations = []\<rparr>" "[]" "[]" sample_loads "''version = 1''"]
    by auto
  have one: "ReuseTOML_from_dict sample_parse [(''version'', PInt 1)] ''REUSE.toml''
     = Inr \<lparr>source = ''REUSE.toml'', version = PInt 1, annotations = []\<rparr>"
    using gets anns ReuseTOML_from_dict_version [of "[(''version'', PInt 1)]" sample_parse
        "''REUSE.toml''" "\<lparr>source = ''REUSE.toml'', version = PInt 1, annotations = []\<rparr>" "[]" "[]" sample_loads "''version = 1''"]
    by auto
  have toml: "ReuseTOML_from_toml sample_loads sample_parse ''version = 1'' ''REUSE.toml''
     = Inr \<lparr>source = ''REUSE.toml'', version = PInt 1, annotations = []\<rparr>"
    using loads one ReuseTOML_from_dict_version [of "[(''version'', PInt 1)]" sample_parse
        "''REUSE.toml''" "\<lparr>source = ''REUSE.toml'', version = PInt 1, annotations = []\<rparr>" "[]" "[]" sample_loads "''version = 1''"]
    by auto
  have full: "ReuseTOML_from_dict sample_parse
     [(''version'', PInt 1),
      (''annotations'', PList [PDict
         [(''path'', PStr ''src/*''), (''precedence'', PStr ''aggregate''),
          (''SPDX-FileCopyrightText'', PStr ''2023 Jane Doe''),
          (''SPDX-License-Identifier'', PStr ''MIT'')]])]
     ''REUSE.toml''
   = Inr \<lparr>source = ''REUSE.toml'', version = PInt 1,
          annotations =
            [\<lparr>paths = [PStr ''src/*''], precedence = PStr ''aggregate'',
              copyright_lines = [PStr ''2023 Jane Doe''],
              spdx_expressions = [PExpr [''MIT'']]\<rparr>]\<rparr>"
    by (simp add: model_defs ReuseTOML_from_dict_def ReuseTOML_init_def
          AnnotationsItem_from_value_def)
  from gets str absent bool full loads toml show ?thesis by simp
qed

text \<open>
  C1 as stated fails: the record with \<^verbatim>\<open>version = 99\<close> is accepted, and the document
  has version 99.
\<close>

theorem version_99_accepted:
  "ReuseTOML_from_dict sample_parse [(''version'', PInt 99)] ''REUSE.toml''
     = Inr \<lparr>source = ''REUSE.toml'', version = PInt 99, annotations = []\<rparr>"
  by (simp add: ReuseTOML_from_dict_def ReuseTOML_init_def dict_get_def dict_get_default_def)

subsection \<open>Loading a file\<close>

lemma isinstance_exc_UnicodeDecodeError:
  "isinstance_exc e UnicodeDecodeError \<longleftrightarrow> e = UnicodeDecodeError"
  by (cases e) (simp_all add: isinstance_exc_def)

text \<open>
  C4. When reading the file raises \<^verbatim>\<open>UnicodeDecodeError\<close>, as it does on bytes that
  are not UTF-8, \<^verbatim>\<open>from_file\<close> of both classes raises that same exception, which is
  not a \<^verbatim>\<open>GlobalLicensingParseError\<close>: \<^verbatim>\<open>ReuseDep5.from_file\<close> catches it before the
  clause for \<^verbatim>\<open>ValueError\<close>, its base class, and raises it again, and
  \<^verbatim>\<open>ReuseTOML.from_file\<close> catches nothing. When \<^verbatim>\<open>Copyright\<close> raises its own
  \<^verbatim>\<open>Error\<close> or a \<^verbatim>\<open>ValueError\<close> that is no decoding error, \<^verbatim>\<open>ReuseDep5.from_file\<close>
  raises \<^verbatim>\<open>GlobalLicensingParseError\<close>; and it raises that only when \<^verbatim>\<open>Copyright\<close>
  raised something other than a decoding error.
\<close>

theorem from_file_decode_error:
  "(open_utf8 p = Inr fp \<and> Copyright_init fp = Inl e \<and> isinstance_exc e UnicodeDecodeError \<longrightarrow>
      ReuseDep5_from_file Path_str open_utf8 Copyright_init p = Inl e \<and>
      \<not> isinstance_exc e GlobalLicensingParseError) \<and>
   (open_toml p = Inr ft \<and> read ft = Inl e \<and> isinstance_exc e UnicodeDecodeError \<longrightarrow>
      ReuseTOML_from_file open_toml read loads parse p = Inl e \<and>
      \<not> isinstance_exc e GlobalLicensingParseError) \<and>
   (open_utf8 p = Inr fp \<and> Copyright_init fp = Inl e \<and>
    \<not> isinstance_exc e UnicodeDecodeError \<and>
    (isinstance_exc e DebianError \<or> isinstance_exc e ValueError) \<longrightarrow>
      ReuseDep5_from_file Path_str open_utf8 Copyright_init p = Inl GlobalLicensingParseError) \<and>
   (ReuseDep5_from_file Path_str open_utf8 Copyright_init p = Inl GlobalLicensingParseError \<and>
    open_utf8 p = Inr fp \<longrightarrow>
      (\<exists>e'. Copyright_init fp = Inl e' \<and> \<not> isinstance_exc e' UnicodeDecodeError))"
proof -
  have dep5: "ReuseDep5_from_file Path_str open_utf8 Copyright_init p = Inl e \<and>
      \<not> isinstance_exc e GlobalLicensingParseError"
    if "open_utf8 p = Inr fp" "Copyright_init fp = Inl e" "isinstance_exc e UnicodeDecodeError"
  proof -
    from that(3) have "e = UnicodeDecodeError"
      by (simp add: isinstance_exc_UnicodeDecodeError)
    with that(1,2) show ?thesis
      by (simp add: ReuseDep5_from_file_def isinstance_exc_def)
  qed
  have toml: "ReuseTOML_from_file open_toml read loads parse p = Inl e \<and>
      \<not> isinstance_exc e GlobalLicensingParseError"
    if "open_toml p = Inr ft" "read ft = Inl e" "isinstance_exc e UnicodeDecodeError"
  proof -
    from that(3) have "e = UnicodeDecodeError"
      by (simp add: isinstance_exc_UnicodeDecodeError)
    with that(1,2) show ?thesis
      by (simp add: ReuseTOML_from_file_def isinstance_exc_def)
  qed
  have wrap: "ReuseDep5_from_file Path_str open_utf8 Copyright_init p
      = Inl GlobalLicensingParseError"
    if "open_utf8 p = Inr fp" "Copyright_init fp = Inl e" "\<not> isinstance_exc e UnicodeDecodeError"
      "isinstance_exc e DebianError \<or> isinstance_exc e ValueError"
    using that by (auto simp: ReuseDep5_from_file_def)
  have only: "\<exists>e'. Copyright_init fp = Inl e' \<and> \<not> isinstance_exc e' UnicodeDecodeError"
    if "ReuseDep5_from_file Path_str open_utf8 Copyright_init p = Inl GlobalLicensingParseError"
      "open_utf8 p = Inr fp"
    using that
    by (auto simp: ReuseDep5_from_file_def isinstance_exc_UnicodeDecodeError
          split: sum.splits if_splits)
  from dep5 toml wrap only show ?thesis by blast
qed

text \<open>
  The two files that are not UTF-8, and the file that \<^verbatim>\<open>Copyright\<close> rejects as not
  machine-readable.
\<close>

theorem from_file_decode_error_witness:
  "sample_open ''latin1/.reuse/dep5'' = Inr ''latin1/.reuse/dep5'' \<and>
   sample_Copyright ''latin1/.reuse/dep5'' = Inl UnicodeDecodeError \<and>
   isinstance_exc UnicodeDecodeError UnicodeDecodeError \<and>
   ReuseDep5_from_file (\<lambda>p. p) sample_open sample_Copyright ''latin1/.reuse/dep5''
     = Inl UnicodeDecodeError \<and>
   sample_open ''latin1/REUSE.toml'' = Inr ''latin1/REUSE.toml'' \<and>
   sample_read ''latin1/REUSE.toml'' = Inl UnicodeDecodeError \<and>
   ReuseTOML_from_file sample_open sample_read sample_loads sample_parse ''latin1/REUSE.toml''
     = Inl UnicodeDecodeError \<and>
   sample_open ''broken/.reuse/dep5'' = Inr ''broken/.reuse/dep5'' \<and>
   sample_Copyright ''broken/.reuse/dep5'' = Inl NotMachineReadableError \<and>
   \<not> isinstance_exc NotMachineReadableError UnicodeDecodeError \<and>
   isinstance_exc NotMachineReadableError DebianError \<and>
   ReuseDep5_from_file (\<lambda>p. p) sample_open sample_Copyright ''broken/.reuse/dep5''
     = Inl GlobalLicensingParseError"
proof -
  have files: "sample_open ''latin1/.reuse/dep5'' = Inr ''latin1/.reuse/dep5''"
    "sample_open ''latin1/REUSE.toml'' = Inr ''latin1/REUSE.toml''"
    "sample_open ''broken/.reuse/dep5'' = Inr ''broken/.reuse/dep5''"
    by (simp_all add: sample_open_def)
  have streams: "sample_Copyright ''latin1/.reuse/dep5'' = Inl UnicodeDecodeError"
    "sample_read ''latin1/REUSE.toml'' = Inl UnicodeDecodeError"
    "sample_Copyright ''broken/.reuse/dep5'' = Inl NotMachineReadableError"
    by (simp_all add: sample_Copyright_def sample_read_def)
  have classes: "isinstance_exc UnicodeDecodeError UnicodeDecodeError"
    "\<not> isinstance_exc NotMachineReadableError UnicodeDecodeError"
    "isinstance_exc NotMachineReadableError DebianError"
    by (simp_all add: isinstance_exc_def)
  from files streams classes
    from_file_decode_error [of sample_open "''latin1/.reuse/dep5''" "''latin1/.reuse/dep5''"
      sample_Copyright UnicodeDecodeError "\<lambda>p. p" sample_open "''latin1/.reuse/dep5''"
      sample_read sample_loads sample_parse]
    from_file_decode_error [of sample_open "''latin1/REUSE.toml''" "''latin1/REUSE.toml''"
      sample_Copyright UnicodeDecodeError "\<lambda>p. p" sample_open "''latin1/REUSE.toml''"
      sample_read sample_loads sample_parse]
    from_file_decode_error [of sample_open "''broken/.reuse/dep5''" "''broken/.reuse/dep5''"
      sample_Copyright NotMachineReadableError "\<lambda>p. p" sample_open "''broken/.reuse/dep5''"
      sample_read sample_loads sample_parse]
  show ?thesis by simp
qed

subsection \<open>ReuseDep5\<close>

lemma set_add_PStr: "set_add s (PStr t) = (if PStr t \<in> set s then s else s @ [PStr t])"
  by (auto simp: set_add_def list_ex_iff)

lemma set_add_all_strs:
  "set (set_add_all s (map PStr ts)) = set s \<union> PStr ` set ts \<and>
   (distinct s \<longrightarrow> distinct (set_add_all s (map PStr ts)))"
  by (induction ts arbitrary: s) (auto simp: set_add_PStr)

lemma py_set_strs:
  "\<exists>cs. py_set (map PStr ts) = Inr cs \<and> set cs = PStr ` set ts \<and> distinct cs"
  using set_add_all_strs [of "[]" ts]
  by (simp add: py_set_def list_all_iff)

lemma py_set_of_parsed: "py_set [of_parsed x] = Inr [of_parsed x]"
  by (cases x) (simp_all add: py_set_def set_add_def)

lemmas dep5_defs =
  ReuseDep5_reuse_info_of_def sample_dep5_def sample_parse_def operators_def
  sample_strip_def sample_splitlines_def py_set_def set_add_def py_eq_def ReuseInfo_empty_def

text \<open>
  C6, as amended. \<^verbatim>\<open>ReuseDep5.reuse_info_of\<close> looks up the posix form of the path.
  When the table has no paragraph for it, the result is the empty ReuseInfo, returned
  and not raised, with no expression and no copyright line. When the table has a
  paragraph and the parser returns on its license synopsis, the result holds what the
  parser returned as its one expression, the stripped lines of the paragraph's
  copyright text as its set of copyright lines and the posix form of the path. When
  the parser raises on the synopsis, the lookup raises the same exception and returns
  no ReuseInfo.
\<close>

theorem ReuseDep5_reuse_info_of_lookup:
  "(dep5_copyright self (as_posix p) = None \<longrightarrow>
      (\<exists>info. ReuseDep5_reuse_info_of as_posix (parse :: 'e pyval \<Rightarrow> exc + 'e option)
                strip splitlines self p = Inr info \<and>
         info = ReuseInfo_empty \<and>
         ReuseInfo.spdx_expressions info = [] \<and> ReuseInfo.copyright_lines info = [])) \<and>
   (dep5_copyright self (as_posix p) = Some row \<and>
    parse (PStr (license_synopsis row)) = Inr x \<longrightarrow>
      (\<exists>cs. ReuseDep5_reuse_info_of as_posix parse strip splitlines self p =
              Inr \<lparr>ReuseInfo.spdx_expressions = [of_parsed x],
                   ReuseInfo.copyright_lines = cs,
                   path = Some (as_posix p),
                   source_type = Some DEP5,
                   source_path = Some ''.reuse/dep5''\<rparr> \<and>
            set cs = (\<lambda>l. PStr (strip l)) ` set (splitlines (copyright row)) \<and>
            distinct cs)) \<and>
   (dep5_copyright self (as_posix p) = Some row \<and>
    parse (PStr (license_synopsis row)) = Inl e \<longrightarrow>
      ReuseDep5_reuse_info_of as_posix parse strip splitlines self p = Inl e)"
proof -
  have absent: "\<exists>info. ReuseDep5_reuse_info_of as_posix parse strip splitlines self p = Inr info \<and>
         info = ReuseInfo_empty \<and>
         ReuseInfo.spdx_expressions info = [] \<and> ReuseInfo.copyright_lines info = []"
    if "dep5_copyright self (as_posix p) = None"
    using that by (simp add: ReuseDep5_reuse_info_of_def ReuseInfo_empty_def)
  have present: "\<exists>cs. ReuseDep5_reuse_info_of as_posix parse strip splitlines self p =
              Inr \<lparr>ReuseInfo.spdx_expressions = [of_parsed x],
                   ReuseInfo.copyright_lines = cs,
                   path = Some (as_posix p),
                   source_type = Some DEP5,
                   source_path = Some ''.reuse/dep5''\<rparr> \<and>
            set cs = (\<lambda>l. PStr (strip l)) ` set (splitlines (copyright row)) \<and>
            distinct cs"
    if "dep5_copyright self (as_posix p) = Some row"
      "parse (PStr (license_synopsis row)) = Inr x"
  proof -
    have "\<exists>cs. py_set (map (\<lambda>l. PStr (strip l)) (splitlines (copyright row))) = Inr cs \<and>
        set cs = (\<lambda>l. PStr (strip l) :: 'e pyval) ` set (splitlines (copyright row)) \<and>
        distinct cs"
      using py_set_strs [of "map strip (splitlines (copyright row))"]
      by (simp add: comp_def image_image)
    with that show ?thesis
      by (auto simp: ReuseDep5_reuse_info_of_def py_set_of_parsed)
  qed
  have raises: "ReuseDep5_reuse_info_of as_posix parse strip splitlines self p = Inl e"
    if "dep5_copyright self (as_posix p) = Some row"
      "parse (PStr (license_synopsis row)) = Inl e"
    using that by (simp add: ReuseDep5_reuse_info_of_def)
  from absent present raises show ?thesis by blast
qed

text \<open>
  A path without a paragraph, the path of the first paragraph, and the path of the
  paragraph whose license does not parse.
\<close>

theorem ReuseDep5_reuse_info_of_lookup_witness:
  "dep5_copyright sample_dep5 ''src/main.py'' = None \<and>
   ReuseDep5_reuse_info_of (\<lambda>p. p) sample_parse sample_strip sample_splitlines
     sample_dep5 ''src/main.py'' = Inr ReuseInfo_empty \<and>
   dep5_copyright sample_dep5 ''README.md''
     = Some \<lparr>license_synopsis = ''CC0-1.0'',
             copyright = ''2023 Jane Doe\<newline>  2024 John Roe ''\<rparr> \<and>
   sample_parse (PStr ''CC0-1.0'') = Inr (Some [''CC0-1.0'']) \<and>
   ReuseDep5_reuse_info_of (\<lambda>p. p) sample_parse sample_strip sample_splitlines
     sample_dep5 ''README.md''
     = Inr \<lparr>ReuseInfo.spdx_expressions = [PExpr [''CC0-1.0'']],
            ReuseInfo.copyright_lines = [PStr ''2023 Jane Doe'', PStr ''2024 John Roe''],
            path = Some ''README.md'',
            source_type = Some DEP5,
            source_path = Some ''.reuse/dep5''\<rparr> \<and>
   sample_parse (PStr ''GPL-2.0-only OR'') = Inl ExpressionError \<and>
   ReuseDep5_reuse_info_of (\<lambda>p. p) sample_parse sample_strip sample_splitlines
     sample_dep5 ''legacy.c'' = Inl ExpressionError"
  using ReuseDep5_reuse_info_of_lookup [of sample_dep5 "\<lambda>p. p" "''src/main.py''"
      sample_parse sample_strip sample_splitlines]
    ReuseDep5_reuse_info_of_lookup [of sample_dep5 "\<lambda>p. p" "''README.md''"
      sample_parse sample_strip sample_splitlines
      "\<lparr>license_synopsis = ''CC0-1.0'',
        copyright = ''2023 Jane Doe\<newline>  2024 John Roe ''\<rparr>"
      "Some [''CC0-1.0'']"]
    ReuseDep5_reuse_info_of_lookup [of sample_dep5 "\<lambda>p. p" "''legacy.c''"
      sample_parse sample_strip sample_splitlines
      "\<lparr>license_synopsis = ''GPL-2.0-only OR'', copyright = ''1999 Old Corp''\<rparr>"
      _ ExpressionError]
  by (simp add: dep5_defs)

text \<open>
  C6 as stated fails: \<^verbatim>\<open>legacy.c\<close> is present in the table, and its lookup returns
  nothing. The license synopsis of its paragraph has a dangling operator, and the
  lookup raises what the parser raises on it.
\<close>

theorem present_row_raises:
  "dep5_copyright sample_dep5 ''legacy.c''
     = Some \<lparr>license_synopsis = ''GPL-2.0-only OR'', copyright = ''1999 Old Corp''\<rparr> \<and>
   ReuseDep5_reuse_info_of (\<lambda>p. p) sample_parse sample_strip sample_splitlines
     sample_dep5 ''legacy.c'' = Inl ExpressionError"
  by (simp add: dep5_defs)

text \<open>
  C9. A ReuseInfo that \<^verbatim>\<open>ReuseDep5.reuse_info_of\<close> returns and that is not the empty
  one has the source type \<^verbatim>\<open>DEP5\<close> and the source path \<^verbatim>\<open>.reuse/dep5\<close>; and the
  \<^verbatim>\<open>source\<close> of the document has no part in the outcome of the lookup.
\<close>

theorem ReuseDep5_source_tag:
  "(ReuseDep5_reuse_info_of as_posix parse strip splitlines self p = Inr info \<and>
    info \<noteq> ReuseInfo_empty \<longrightarrow>
      source_type info = Some DEP5 \<and> source_path info = Some ''.reuse/dep5'') \<and>
   ReuseDep5_reuse_info_of as_posix parse strip splitlines (self\<lparr>source := src\<rparr>) p
     = ReuseDep5_reuse_info_of as_posix parse strip splitlines self p"
proof -
  have tag: "source_type info = Some DEP5 \<and> source_path info = Some ''.reuse/dep5''"
    if "ReuseDep5_reuse_info_of as_posix parse strip splitlines self p = Inr info"
      "info \<noteq> ReuseInfo_empty"
    using that
    by (auto simp: ReuseDep5_reuse_info_of_def Let_def split: option.splits sum.splits)
  have same: "ReuseDep5_reuse_info_of as_posix parse strip splitlines (self\<lparr>source := src\<rparr>) p
     = ReuseDep5_reuse_info_of as_posix parse strip splitlines self p"
    by (simp add: ReuseDep5_reuse_info_of_def)
  from tag same show ?thesis by blast
qed

text \<open>
  The lookup of \<^verbatim>\<open>README.md\<close> in the sample document, whose \<^verbatim>\<open>source\<close> is an absolute
  path, and in the same document with another \<^verbatim>\<open>source\<close>.
\<close>

theorem ReuseDep5_source_tag_witness:
  "ReuseDep5_reuse_info_of (\<lambda>p. p) sample_parse sample_strip sample_splitlines
     sample_dep5 ''README.md''
     = Inr \<lparr>ReuseInfo.spdx_expressions = [PExpr [''CC0-1.0'']],
            ReuseInfo.copyright_lines = [PStr ''2023 Jane Doe'', PStr ''2024 John Roe''],
            path = Some ''README.md'',
            source_type = Some DEP5,
            source_path = Some ''.reuse/dep5''\<rparr> \<and>
   \<lparr>ReuseInfo.spdx_expressions = [PExpr [''CC0-1.0'']],
     ReuseInfo.copyright_lines = [PStr ''2023 Jane Doe'', PStr ''2024 John Roe''],
     path = Some ''README.md'',
     source_type = Some DEP5,
     source_path = Some ''.reuse/dep5''\<rparr> \<noteq> (ReuseInfo_empty :: string list ReuseInfo) \<and>
   source sample_dep5 = ''/home/jane/project/.reuse/dep5'' \<and>
   ReuseDep5_reuse_info_of (\<lambda>p. p) sample_parse sample_strip sample_splitlines
     (sample_dep5\<lparr>source := ''.reuse/dep5''\<rparr>) ''README.md''
   = ReuseDep5_reuse_info_of (\<lambda>p. p) sample_parse sample_strip sample_splitlines
     sample_dep5 ''README.md''"
  using ReuseDep5_source_tag [of "\<lambda>p. p" sample_parse sample_strip sample_splitlines
      sample_dep5 "''README.md''"
      "\<lparr>ReuseInfo.spdx_expressions = [PExpr [''CC0-1.0'']],
        ReuseInfo.copyright_lines = [PStr ''2023 Jane Doe'', PStr ''2024 John Roe''],
        path = Some ''README.md'',
        source_type = Some DEP5,
        source_path = Some ''.reuse/dep5''\<rparr>"
      "''.reuse/dep5''"]
  by (simp add: dep5_defs)

end
